theory Spec2Isabelle
  imports Main
begin

section \<open>Values handed to the infrastructure SDK\<close>

text \<open>
  The stack files do nothing but build property bags (object literals) and hand them to
  constructors and methods of the cloud-infrastructure SDK. A property bag is modelled as
  the value the TypeScript expression denotes:
  \<^item> \<open>Undefined\<close> for an omitted optional argument,
  \<^item> \<open>Str\<close>, \<open>Num\<close>, \<open>Bool\<close> for literals, \<open>Arr\<close> for an array literal, \<open>Obj\<close> for an
    object literal (keys in source order),
  \<^item> \<open>Enum e m\<close> for a named SDK constant \<open>e.m\<close>, such as \<open>cdk.RemovalPolicy.DESTROY\<close>,
  \<^item> \<open>Ref h\<close> for the SDK object that the \<open>h\<close>-th SDK call of the run returned,
  \<^item> \<open>Attr h a\<close> for the attribute \<open>a\<close> read from that object, such as
    \<open>contentDelivery.distributionDomainName\<close>.
\<close>

datatype val =
    Undefined
  | Str string
  | Num int
  | Bool bool
  | Arr "val list"
  | Obj "(string \<times> val) list"
  | Enum string string
  | Ref nat
  | Attr nat string

text \<open>
  What the code does to the SDK: \<open>new C(args)\<close>, a static call \<open>C.m(args)\<close>, or a method
  call \<open>obj.m(args)\<close> on an SDK object.
\<close>

datatype call =
    New string "val list"
  | Static string string "val list"
  | Method nat string "val list"

text \<open>
  An error is either one the SDK raised, or the run-time's own \<open>TypeError\<close> for applying
  \<open>new\<close> to a binding that is not a constructor.
\<close>

datatype error = SdkError string | TypeError string

text \<open>
  The state of a run is the list of SDK calls made so far; the object a call returns is
  identified by the position of that call. The SDK itself is a parameter: given a call
  and the history it either raises an error or accepts the call. The run-time's lookup of
  an imported name comes in front of it, in \<open>under_imports\<close> below.
\<close>

type_synonym trace = "call list"
type_synonym sdk = "call \<Rightarrow> trace \<Rightarrow> error option"
type_synonym 'a run = "trace \<Rightarrow> error + ('a \<times> trace)"

definition result :: "'a \<Rightarrow> 'a run" where
  "result x tr = Inr (x, tr)"

definition and_then :: "'a run \<Rightarrow> ('a \<Rightarrow> 'b run) \<Rightarrow> 'b run" where
  "and_then m f tr = (case m tr of Inl e \<Rightarrow> Inl e | Inr (x, tr') \<Rightarrow> f x tr')"

definition perform :: "sdk \<Rightarrow> call \<Rightarrow> nat run" where
  "perform sdk c tr =
     (case sdk c tr of Some e \<Rightarrow> Inl e | None \<Rightarrow> Inr (length tr, tr @ [c]))"

section \<open>The SplitItUI stack (SplitItUI-cdk/lib/SplitItUI-cdk-stack.ts)\<close>

text \<open>
  \<open>WebAppStackProps\<close> extends \<open>cdk.StackProps\<close> with no field of its own and is optional;
  the constructor only passes it on to \<open>super\<close>.
\<close>

definition WebAppStack :: "sdk \<Rightarrow> nat \<Rightarrow> string \<Rightarrow> val \<Rightarrow> nat run" where
  "WebAppStack sdk scope id' props =
     and_then (perform sdk (New ''cdk.Stack'' [Ref scope, Str id', props])) (\<lambda>this.
     and_then (perform sdk (New ''s3.Bucket'' [Ref this, Str ''WebAppS3'', Obj [
         (''bucketName'', Str ''my-webapp-bucket''),
         (''removalPolicy'', Enum ''cdk.RemovalPolicy'' ''DESTROY'')]])) (\<lambda>webAppS3.
     and_then (perform sdk (New ''cloudfront.S3Origin'' [Ref webAppS3])) (\<lambda>origin.
     and_then (perform sdk (New ''cloudfront.Distribution'' [Ref this, Str ''ContentDelivery'', Obj [
         (''defaultBehavior'', Obj [(''origin'', Ref origin)])]])) (\<lambda>contentDelivery.
     and_then (perform sdk (New ''cdk.CfnOutput'' [Ref this, Str ''WebsiteURL'', Obj [
         (''value'', Attr contentDelivery ''distributionDomainName'')]])) (\<lambda>_.
     result this)))))"

section \<open>The imported library\<close>

text \<open>
  The stack file reaches the SDK through namespace imports, \<open>import * as alias from path\<close>,
  and names a class as \<open>alias.Name\<close>. What each module of the SDK exports is not part of
  the repository: a library is a parameter, giving for a module path the names it exports.
  The import \<open>{ Construct } from 'constructs'\<close> of the file is used as a type only.
\<close>

type_synonym library = "string \<Rightarrow> string list"

definition SplitItUI_cdk_stack_imports :: "(string \<times> string) list" where
  "SplitItUI_cdk_stack_imports =
     [(''cdk'', ''aws-cdk-lib/core''),
      (''s3'', ''aws-cdk-lib/aws-s3''),
      (''cloudfront'', ''aws-cdk-lib/aws-cloudfront'')]"

text \<open>The qualified names \<open>alias.Name\<close> that have a value under a list of imports.\<close>

definition members :: "library \<Rightarrow> (string \<times> string) list \<Rightarrow> string list" where
  "members lib imports =
     concat (map (\<lambda>i. map (\<lambda>n. fst i @ ''.'' @ n) (lib (snd i))) imports)"

text \<open>
  What a call does under a file's imports: \<open>new alias.Name(...)\<close> for a name the imported
  module lacks applies \<open>new\<close> to \<open>undefined\<close>, which is the run-time's \<open>TypeError\<close> and
  reaches no SDK code; every other call is the SDK's to accept or to reject.
\<close>

fun under_imports :: "library \<Rightarrow> (string \<times> string) list \<Rightarrow> sdk \<Rightarrow> sdk" where
  "under_imports lib imports sdk (New c args) tr =
     (if c \<in> set (members lib imports) then sdk (New c args) tr
      else Some (TypeError (c @ '' is not a constructor'')))"
| "under_imports lib imports sdk (Static c m args) tr = sdk (Static c m args) tr"
| "under_imports lib imports sdk (Method h m args) tr = sdk (Method h m args) tr"

section \<open>Modules, imports and the two scripts of SplitItUI-cdk\<close>

text \<open>
  A module is the list of its exports, name to exported class. The stack module has one
  \<open>export\<close>: the class \<open>WebAppStack\<close> (the interface \<open>WebAppStackProps\<close> is not exported).
  A default import reads the export named \<open>default\<close>; a named import reads the export of
  that name. An import the module does not provide leaves the binding without a value.
\<close>

datatype exported = WebAppStack_class

type_synonym module = "(string \<times> exported) list"

definition SplitItUI_cdk_stack :: module where
  "SplitItUI_cdk_stack = [(''WebAppStack'', WebAppStack_class)]"

definition import_default :: "module \<Rightarrow> exported option" where
  "import_default m = map_of m ''default''"

definition import_named :: "module \<Rightarrow> string \<Rightarrow> exported option" where
  "import_named m name = map_of m name"

text \<open>\<open>new b(scope, id, props)\<close> for an imported binding \<open>b\<close>.\<close>

fun new_imported :: "string \<Rightarrow> exported option \<Rightarrow> sdk \<Rightarrow> nat \<Rightarrow> string \<Rightarrow> val \<Rightarrow> nat run" where
  "new_imported name None sdk scope id' props =
     (\<lambda>tr. Inl (TypeError (name @ '' is not a constructor'')))"
| "new_imported name (Some WebAppStack_class) sdk scope id' props =
     WebAppStack sdk scope id' props"

text \<open>The test file: \<open>import cdk_Stack from '../lib/SplitItUI-cdk-stack'\<close>.\<close>

definition test_cdk_Stack :: "exported option" where
  "test_cdk_Stack = import_default SplitItUI_cdk_stack"

definition test_SQS_Queue_and_SNS_Topic_Created :: "sdk \<Rightarrow> unit run" where
  "test_SQS_Queue_and_SNS_Topic_Created sdk =
     and_then (perform sdk (New ''cdk.App'' [])) (\<lambda>app.
     and_then (new_imported ''cdk_Stack'' test_cdk_Stack sdk app ''MyTestStack'' Undefined) (\<lambda>stack.
     and_then (perform sdk (Static ''Template'' ''fromStack'' [Ref stack])) (\<lambda>template.
     and_then (perform sdk (Method template ''hasResourceProperties''
         [Str ''AWS::SQS::Queue'', Obj [(''VisibilityTimeout'', Num 300)]])) (\<lambda>_.
     and_then (perform sdk (Method template ''resourceCountIs''
         [Str ''AWS::SNS::Topic'', Num 1])) (\<lambda>_.
     result ())))))"

text \<open>The bin script: \<open>import { cdk_Stack } from '../lib/SplitItUI-cdk-stack'\<close>.\<close>

definition bin_cdk_Stack :: "exported option" where
  "bin_cdk_Stack = import_named SplitItUI_cdk_stack ''cdk_Stack''"

definition SplitItUI_cdk_bin :: "sdk \<Rightarrow> unit run" where
  "SplitItUI_cdk_bin sdk =
     and_then (perform sdk (New ''cdk.App'' [])) (\<lambda>app.
     and_then (new_imported ''cdk_Stack'' bin_cdk_Stack sdk app ''CdkStack'' (Obj [])) (\<lambda>cdk_package.
     result ()))"

section \<open>The GitAuthEngine stack (GitAuthEngine-cdk/lib/GitAuthEngine-cdk-stack.ts)\<close>

text \<open>
  Each wrapper class extends \<open>Construct\<close>: its instance is the construct node made by
  \<open>super(scope, id)\<close> together with the public fields the constructor assigns. The props
  interfaces are records; the optional fields some of them inherit from \<open>cdk.StackProps\<close>
  are never read and are left out. SDK objects held in props are the positions of the
  calls that made them.
\<close>

record Construct =
  node :: nat

subsection \<open>ApiGatewayConstruct\<close>

record ApiGatewayConstructProps =
  restApiName :: string
  apigatewayName :: string
  allowedOrigins :: "string list"
  lambdaFunction :: nat
  description :: "string option"

record ApiGatewayConstruct_obj = Construct +
  apiGateway :: nat

definition ApiGatewayConstruct ::
  "sdk \<Rightarrow> nat \<Rightarrow> string \<Rightarrow> ApiGatewayConstructProps \<Rightarrow> ApiGatewayConstruct_obj run" where
  "ApiGatewayConstruct sdk scope id' props =
     and_then (perform sdk (New ''Construct'' [Ref scope, Str id'])) (\<lambda>this.
     and_then (perform sdk (New ''apigateway.LambdaIntegration''
         [Ref (ApiGatewayConstructProps.lambdaFunction props)])) (\<lambda>integration.
     and_then (perform sdk (New ''apigateway.RestApi'' [Ref this, Str (apigatewayName props), Obj [
         (''restApiName'', Str (restApiName props)),
         (''defaultCorsPreflightOptions'', Obj [
            (''allowHeaders'', Arr [Str ''Content-Type'', Str ''X-Amz-Date'',
                                    Str ''Authorization'', Str ''X-Api-Key'']),
            (''allowMethods'', Arr [Str ''POST'']),
            (''allowCredentials'', Bool True),
            (''allowOrigins'', Arr (map Str (allowedOrigins props)))]),
         (''description'', Str (case description props of None \<Rightarrow> [] | Some d \<Rightarrow> d)),
         (''endpointExportName'', Str ''ServiceRequestAPI''),
         (''deployOptions'', Obj [
            (''stageName'', Str ''prod''),
            (''loggingLevel'', Enum ''apigateway.MethodLoggingLevel'' ''INFO''),
            (''dataTraceEnabled'', Bool True),
            (''metricsEnabled'', Bool True)]),
         (''cloudWatchRole'', Bool True),
         (''cloudWatchRoleRemovalPolicy'', Enum ''cdk.RemovalPolicy'' ''DESTROY''),
         (''defaultIntegration'', Ref integration),
         (''failOnWarnings'', Bool True),
         (''retainDeployments'', Bool False),
         (''defaultMethodOptions'', Obj [
            (''methodResponses'', Arr [Obj [(''statusCode'', Str ''200'')]]),
            (''operationName'', Str ''ServiceRequest''),
            (''requestParameters'', Obj [
               (''method.request.header.Authorization'', Bool True),
               (''method.request.header.Content-Type'', Bool True),
               (''method.request.header.Custom-Header'', Bool True),
               (''method.request.querystring.myParam'', Bool True)]),
            (''authorizationType'', Enum ''apigateway.AuthorizationType'' ''NONE'')])]])) (\<lambda>apiGateway.
     result \<lparr>node = this, apiGateway = apiGateway\<rparr>)))"

subsection \<open>AuthLambdaConstruct\<close>

record AuthLambdaConstructProps =
  functionName :: string
  handler :: string
  codePath :: string
  vpc :: nat
  securityGroups :: "nat list"
  environment :: "(string \<times> val) list"

record AuthLambdaConstruct_obj = Construct +
  lambdaFunction :: nat

definition AuthLambdaConstruct ::
  "sdk \<Rightarrow> nat \<Rightarrow> string \<Rightarrow> AuthLambdaConstructProps \<Rightarrow> AuthLambdaConstruct_obj run" where
  "AuthLambdaConstruct sdk scope id' props =
     and_then (perform sdk (New ''Construct'' [Ref scope, Str id'])) (\<lambda>this.
     and_then (perform sdk (Static ''lambda.Code'' ''fromAsset'' [Str (codePath props)])) (\<lambda>code.
     and_then (perform sdk (New ''lambda.Function'' [Ref this, Str (functionName props), Obj [
         (''runtime'', Enum ''lambda.Runtime'' ''PYTHON_3_9''),
         (''handler'', Str (handler props)),
         (''code'', Ref code),
         (''vpc'', Ref (AuthLambdaConstructProps.vpc props)),
         (''securityGroups'', Arr (map Ref (securityGroups props))),
         (''environment'', Obj (environment props))]])) (\<lambda>lambdaFunction.
     and_then (perform sdk (New ''iam.PolicyStatement'' [Obj [
         (''actions'', Arr [Str ''dynamodb:*'', Str ''cognito-idp:*'',
                            Str ''elasticache:*'', Str ''logs:*'']),
         (''resources'', Arr [Str ''*''])]])) (\<lambda>statement.
     and_then (perform sdk (Method lambdaFunction ''addToRolePolicy'' [Ref statement])) (\<lambda>_.
     result \<lparr>node = this, lambdaFunction = lambdaFunction\<rparr>)))))"

subsection \<open>DynamoDBConstruct\<close>

record Attribute =
  name :: string
  type :: val

record DynamoDBConstructProps =
  tableName :: string
  partitionKey :: Attribute

record DynamoDBConstruct_obj = Construct +
  table :: nat

definition DynamoDBConstruct ::
  "sdk \<Rightarrow> nat \<Rightarrow> string \<Rightarrow> DynamoDBConstructProps \<Rightarrow> DynamoDBConstruct_obj run" where
  "DynamoDBConstruct sdk scope id' props =
     and_then (perform sdk (New ''Construct'' [Ref scope, Str id'])) (\<lambda>this.
     and_then (perform sdk (New ''dynamodb.Table'' [Ref this, Str (tableName props), Obj [
         (''tableName'', Str (tableName props)),
         (''partitionKey'', Obj [
            (''name'', Str (Attribute.name (partitionKey props))),
            (''type'', Attribute.type (partitionKey props))]),
         (''removalPolicy'', Enum ''cdk.RemovalPolicy'' ''DESTROY'')]])) (\<lambda>table.
     result \<lparr>node = this, table = table\<rparr>))"

subsection \<open>CognitoConstruct\<close>

record CognitoConstructProps =
  userPoolName :: string
  clientName :: string

record CognitoConstruct_obj = Construct +
  userPool :: nat
  userPoolClient :: nat

definition CognitoConstruct ::
  "sdk \<Rightarrow> nat \<Rightarrow> string \<Rightarrow> CognitoConstructProps \<Rightarrow> CognitoConstruct_obj run" where
  "CognitoConstruct sdk scope id' props =
     and_then (perform sdk (New ''Construct'' [Ref scope, Str id'])) (\<lambda>this.
     and_then (perform sdk (New ''cognito.UserPool'' [Ref this, Str (userPoolName props), Obj [
         (''userPoolName'', Str (userPoolName props)),
         (''selfSignUpEnabled'', Bool True)]])) (\<lambda>userPool.
     and_then (perform sdk (New ''cognito.UserPoolClient'' [Ref this, Str (clientName props), Obj [
         (''userPool'', Ref userPool)]])) (\<lambda>userPoolClient.
     result \<lparr>node = this, userPool = userPool, userPoolClient = userPoolClient\<rparr>)))"

subsection \<open>ElastiCacheConstruct\<close>

record ElastiCacheConstructProps =
  vpc :: nat
  securityGroup :: nat
  cacheClusterId :: string

record ElastiCacheConstruct_obj = Construct +
  cacheCluster :: nat

definition ElastiCacheConstruct ::
  "sdk \<Rightarrow> nat \<Rightarrow> string \<Rightarrow> ElastiCacheConstructProps \<Rightarrow> ElastiCacheConstruct_obj run" where
  "ElastiCacheConstruct sdk scope id' props =
     and_then (perform sdk (New ''Construct'' [Ref scope, Str id'])) (\<lambda>this.
     and_then (perform sdk (New ''elasticache.CfnCacheCluster'' [Ref this, Str (cacheClusterId props), Obj [
         (''vpcSecurityGroupIds'', Arr [Attr (securityGroup props) ''securityGroupId'']),
         (''cacheNodeType'', Str ''cache.t2.micro''),
         (''engine'', Str ''redis''),
         (''numCacheNodes'', Num 1),
         (''clusterName'', Str (cacheClusterId props))]])) (\<lambda>cacheCluster.
     result \<lparr>node = this, cacheCluster = cacheCluster\<rparr>))"

subsection \<open>CloudWatchConstruct\<close>

record CloudWatchConstructProps =
  logGroupName :: string

record CloudWatchConstruct_obj = Construct +
  logGroup :: nat

definition CloudWatchConstruct ::
  "sdk \<Rightarrow> nat \<Rightarrow> string \<Rightarrow> CloudWatchConstructProps \<Rightarrow> CloudWatchConstruct_obj run" where
  "CloudWatchConstruct sdk scope id' props =
     and_then (perform sdk (New ''Construct'' [Ref scope, Str id'])) (\<lambda>this.
     and_then (perform sdk (New ''logs.LogGroup'' [Ref this, Str (logGroupName props), Obj [
         (''logGroupName'', Str (logGroupName props)),
         (''retention'', Enum ''logs.RetentionDays'' ''ONE_MONTH''),
         (''removalPolicy'', Enum ''cdk.RemovalPolicy'' ''DESTROY'')]])) (\<lambda>logGroup.
     result \<lparr>node = this, logGroup = logGroup\<rparr>))"

subsection \<open>MyStack and the file's top level\<close>

definition MyStack :: "sdk \<Rightarrow> nat \<Rightarrow> string \<Rightarrow> val \<Rightarrow> nat run" where
  "MyStack sdk scope id' props =
     and_then (perform sdk (New ''cdk.Stack'' [Ref scope, Str id', props])) (\<lambda>this.
     and_then (perform sdk (New ''ec2.Vpc'' [Ref this, Str ''Vpc'', Obj [
         (''maxAzs'', Num 3),
         (''natGateways'', Num 1)]])) (\<lambda>vpc.
     and_then (perform sdk (New ''ec2.SecurityGroup'' [Ref this, Str ''SecurityGroup'', Obj [
         (''vpc'', Ref vpc),
         (''allowAllOutbound'', Bool True)]])) (\<lambda>securityGroup.
     and_then (DynamoDBConstruct sdk this ''DynamoDBConstruct'' \<lparr>
         tableName = ''MyTable'',
         partitionKey = \<lparr>name = ''ID'', type = Enum ''dynamodb.AttributeType'' ''STRING''\<rparr>\<rparr>) (\<lambda>dynamoDb.
     and_then (CognitoConstruct sdk this ''CognitoConstruct'' \<lparr>
         userPoolName = ''MyUserPool'',
         clientName = ''MyUserPoolClient''\<rparr>) (\<lambda>cognitoUserPool.
     and_then (ElastiCacheConstruct sdk this ''ElastiCacheConstruct'' \<lparr>
         ElastiCacheConstructProps.vpc = vpc,
         securityGroup = securityGroup,
         cacheClusterId = ''MyCacheCluster''\<rparr>) (\<lambda>elastiCacheCluster.
     and_then (CloudWatchConstruct sdk this ''CloudWatchConstruct'' \<lparr>
         logGroupName = ''MyLogGroup''\<rparr>) (\<lambda>cloudWatchLogGroup.
     and_then (AuthLambdaConstruct sdk this ''AuthLambdaConstruct'' \<lparr>
         functionName = ''AuthLambdaFunction'',
         handler = ''index.handler'',
         codePath = ''path/to/your/code'',
         AuthLambdaConstructProps.vpc = vpc,
         securityGroups = [securityGroup],
         environment = [
           (''DYNAMODB_TABLE'', Attr (table dynamoDb) ''tableName''),
           (''USER_POOL_ID'', Attr (userPool cognitoUserPool) ''userPoolId''),
           (''CACHE_CLUSTER_ID'', Attr (cacheCluster elastiCacheCluster) ''ref''),
           (''LOG_GROUP_NAME'', Attr (logGroup cloudWatchLogGroup) ''logGroupName'')]\<rparr>) (\<lambda>authLambda.
     and_then (ApiGatewayConstruct sdk this ''ApiGatewayConstruct'' \<lparr>
         restApiName = ''MyApiGateway'',
         apigatewayName = ''MyApiGatewayName'',
         allowedOrigins = [''*''],
         ApiGatewayConstructProps.lambdaFunction = AuthLambdaConstruct_obj.lambdaFunction authLambda,
         description = None\<rparr>) (\<lambda>_.
     result this)))))))))"


section \<open>Observations on a run\<close>

text \<open>The calls a constructor made: those added to the history it started from.\<close>

definition calls_since :: "trace \<Rightarrow> trace \<Rightarrow> call list" where
  "calls_since tr0 tr = drop (length tr0) tr"

fun is_new :: "string \<Rightarrow> call \<Rightarrow> bool" where
  "is_new cls (New c args) = (c = cls)"
| "is_new cls (Static c m args) = False"
| "is_new cls (Method h m args) = False"

definition news :: "string \<Rightarrow> call list \<Rightarrow> call list" where
  "news cls cs = filter (is_new cls) cs"

fun class_of :: "call \<Rightarrow> string" where
  "class_of (New c args) = c"
| "class_of (Static c m args) = c"
| "class_of (Method h m args) = []"

fun args_of :: "call \<Rightarrow> val list" where
  "args_of (New c args) = args"
| "args_of (Static c m args) = args"
| "args_of (Method h m args) = args"

text \<open>
  A construct is made by \<open>new C(scope, id, props)\<close>: the first argument is the construct it
  is declared under, the second its id, the third its property bag.
\<close>

fun scope_of :: "call \<Rightarrow> nat option" where
  "scope_of (New c (Ref s # Str i # rest)) = Some s"
| "scope_of c = None"

fun ident_of :: "call \<Rightarrow> string" where
  "ident_of (New c (scope # Str i # rest)) = i"
| "ident_of c = []"

fun props_of :: "call \<Rightarrow> val" where
  "props_of (New c (scope # ident # p # rest)) = p"
| "props_of c = Undefined"

text \<open>Reading a nested property: \<open>get [k1, k2] v\<close> is \<open>v.k1.k2\<close>.\<close>

fun get :: "string list \<Rightarrow> val \<Rightarrow> val option" where
  "get [] v = Some v"
| "get (k # ks) (Obj kvs) = (case map_of kvs k of None \<Rightarrow> None | Some v \<Rightarrow> get ks v)"
| "get (k # ks) v = None"

definition property :: "string list \<Rightarrow> call \<Rightarrow> val option" where
  "property path c = get path (props_of c)"



text \<open>The calls a run makes from a given history; none when it ends in an error.\<close>

definition calls_made :: "'a run \<Rightarrow> trace \<Rightarrow> call list" where
  "calls_made m tr0 = (case m tr0 of Inl e \<Rightarrow> [] | Inr (x, tr) \<Rightarrow> calls_since tr0 tr)"

text \<open>The shape of a call, without its arguments.\<close>

datatype kind = Constructor string | StaticCall string string | MethodCall string

fun kind_of :: "call \<Rightarrow> kind" where
  "kind_of (New c args) = Constructor c"
| "kind_of (Static c m args) = StaticCall c m"
| "kind_of (Method h m args) = MethodCall m"


text \<open>Every removal policy named anywhere in a value, and in the arguments of a call.\<close>

fun removal_policies :: "val \<Rightarrow> string list" where
  "removal_policies (Enum e m) = (if e = ''cdk.RemovalPolicy'' then [m] else [])"
| "removal_policies (Arr vs) = concat (map removal_policies vs)"
| "removal_policies (Obj kvs) = concat (map (\<lambda>kv. removal_policies (snd kv)) kvs)"
| "removal_policies v = []"

definition explicit_removal_policies :: "call list \<Rightarrow> ((string \<times> string) \<times> string list) list" where
  "explicit_removal_policies cs =
     filter (\<lambda>x. snd x \<noteq> [])
       (map (\<lambda>c. ((class_of c, ident_of c), concat (map removal_policies (args_of c)))) cs)"

section \<open>The template and the assertions of the test\<close>

text \<open>
  Synthesis is the SDK's: it turns each construct into resources of the template, a
  resource being a type and its properties. It is a parameter \<open>cfn\<close> here, the resources
  the SDK emits for one call. The template of a stack is what its calls emit.
  \<open>hasResourceProperties\<close> holds when some resource of the type carries the given
  properties; \<open>resourceCountIs\<close> when the number of resources of the type is the given one.
\<close>

type_synonym resource = "string \<times> (string \<times> val) list"

definition template :: "(call \<Rightarrow> resource list) \<Rightarrow> call list \<Rightarrow> resource list" where
  "template cfn cs = concat (map cfn cs)"

definition hasResourceProperties :: "resource list \<Rightarrow> string \<Rightarrow> (string \<times> val) list \<Rightarrow> bool" where
  "hasResourceProperties tpl ty props =
     list_ex (\<lambda>r. fst r = ty \<and> list_all (\<lambda>kv. map_of (snd r) (fst kv) = Some (snd kv)) props) tpl"

definition resourceCountIs :: "resource list \<Rightarrow> string \<Rightarrow> nat \<Rightarrow> bool" where
  "resourceCountIs tpl ty n = (length (filter (\<lambda>r. fst r = ty) tpl) = n)"

text \<open>The SDK classes the SplitItUI stack file names.\<close>

definition WebAppStack_classes :: "string list" where
  "WebAppStack_classes =
     [''cdk.Stack'', ''s3.Bucket'', ''cloudfront.S3Origin'', ''cloudfront.Distribution'',
      ''cdk.CfnOutput'']"

section \<open>The preflight response and the CORS check\<close>

text \<open>
  Neither is code of the repository; both are what the claim about credentialed requests
  speaks of. From \<open>defaultCorsPreflightOptions\<close> the SDK's REST API answers a preflight
  request with \<open>Access-Control-Allow-Origin\<close> set to the first entry of \<open>allowOrigins\<close>, and
  with \<open>Access-Control-Allow-Credentials: true\<close> when \<open>allowCredentials\<close> is set. A browser
  lets a cross-origin request through when the CORS check of the Fetch standard succeeds:
  without an allowed-origin header it fails; a request without credentials passes on the
  wildcard \<open>*\<close>; otherwise the header must equal the request's origin, and a request with
  credentials needs the credentials header as well.
\<close>

record preflight_headers =
  allow_origin :: "string option"
  allow_credentials :: bool

fun first_origin :: "val option \<Rightarrow> string option" where
  "first_origin (Some (Arr (Str origin # rest))) = Some origin"
| "first_origin v = None"

definition preflight_headers_of :: "call \<Rightarrow> preflight_headers" where
  "preflight_headers_of c =
     \<lparr>allow_origin = first_origin (property [''defaultCorsPreflightOptions'', ''allowOrigins''] c),
      allow_credentials =
        (property [''defaultCorsPreflightOptions'', ''allowCredentials''] c = Some (Bool True))\<rparr>"

definition cors_check :: "preflight_headers \<Rightarrow> string \<Rightarrow> bool \<Rightarrow> bool" where
  "cors_check h origin with_credentials =
     (case allow_origin h of
        None \<Rightarrow> False
      | Some allowed \<Rightarrow>
          if \<not> with_credentials \<and> allowed = ''*'' then True
          else if allowed \<noteq> origin then False
          else if \<not> with_credentials then True
          else allow_credentials h)"

section \<open>Sample SDK behaviours\<close>

text \<open>An SDK that accepts every call.\<close>

definition accepting :: sdk where
  "accepting c tr = None"

text \<open>
  A library laid out as \<open>aws-cdk-lib\<close> is, as far as the names of the SplitItUI stack file
  go: \<open>S3Origin\<close> is a member of \<open>aws-cdk-lib/aws-cloudfront-origins\<close>, not of
  \<open>aws-cdk-lib/aws-cloudfront\<close>.
\<close>

definition aws_cdk_lib :: library where
  "aws_cdk_lib path =
     (if path = ''aws-cdk-lib/core'' then [''App'', ''Stack'', ''CfnOutput'', ''RemovalPolicy'']
      else if path = ''aws-cdk-lib/aws-s3'' then [''Bucket'']
      else if path = ''aws-cdk-lib/aws-cloudfront'' then [''Distribution'']
      else if path = ''aws-cdk-lib/aws-cloudfront-origins'' then [''S3Origin'']
      else [])"

text \<open>A synthesis that emits one resource for a bucket and one for a distribution.\<close>

fun sample_cfn :: "call \<Rightarrow> resource list" where
  "sample_cfn (New c args) =
     (if c = ''s3.Bucket'' then [(''AWS::S3::Bucket'', [])]
      else if c = ''cloudfront.Distribution'' then [(''AWS::CloudFront::Distribution'', [])]
      else [])"
| "sample_cfn (Static c m args) = []"
| "sample_cfn (Method h m args) = []"

section \<open>Replaying calls\<close>

text \<open>
  \<open>replay\<close> makes a list of calls one after the other and stops at the first the SDK
  rejects, with the SDK's error. \<open>outcome\<close> is a run without the value it returns. A
  constructor is \<open>straight\<close> when, from every history, it is the replay of one list of
  calls, the list it makes against the SDK that accepts every call: it ends with the
  error of the first rejected call, unchanged, and returns only when every call was
  accepted.
\<close>

fun replay :: "sdk \<Rightarrow> call list \<Rightarrow> trace \<Rightarrow> error + trace" where
  "replay sdk [] tr = Inr tr"
| "replay sdk (c # cs) tr =
     (case sdk c tr of Some e \<Rightarrow> Inl e | None \<Rightarrow> replay sdk cs (tr @ [c]))"

definition outcome :: "'a run \<Rightarrow> trace \<Rightarrow> error + trace" where
  "outcome m tr = (case m tr of Inl e \<Rightarrow> Inl e | Inr (x, tr') \<Rightarrow> Inr tr')"

definition straight :: "(sdk \<Rightarrow> 'a run) \<Rightarrow> bool" where
  "straight M \<longleftrightarrow>
     (\<forall>tr. \<exists>x cs. M accepting tr = Inr (x, tr @ cs) \<and>
        (\<forall>sdk. M sdk tr = (case replay sdk cs tr of Inl e \<Rightarrow> Inl e | Inr t \<Rightarrow> Inr (x, t))))"

section \<open>Basic facts about runs\<close>

lemma perform_Inr:
  "perform sdk c tr = Inr (h, tr') \<longleftrightarrow> sdk c tr = None \<and> h = length tr \<and> tr' = tr @ [c]"
  by (auto simp: perform_def split: option.splits)

lemma perform_Inl:
  "perform sdk c tr = Inl e \<longleftrightarrow> sdk c tr = Some e"
  by (auto simp: perform_def split: option.splits)

lemma and_then_Inr:
  "and_then m f tr = Inr r \<longleftrightarrow> (\<exists>x tr'. m tr = Inr (x, tr') \<and> f x tr' = Inr r)"
  by (auto simp: and_then_def split: sum.splits)

lemma and_then_Inl:
  "and_then m f tr = Inl e \<longleftrightarrow>
     m tr = Inl e \<or> (\<exists>x tr'. m tr = Inr (x, tr') \<and> f x tr' = Inl e)"
  by (auto simp: and_then_def split: sum.splits)

lemma result_Inr: "result x tr = Inr (y, tr') \<longleftrightarrow> y = x \<and> tr' = tr"
  by (auto simp: result_def)

lemma result_Inl: "result x tr \<noteq> Inl e"
  by (simp add: result_def)

lemma WebAppStack_trace:
  assumes "WebAppStack sdk scope id' props tr0 = Inr (this, tr)"
  shows "this = length tr0"
    and "tr = tr0 @ [
      New ''cdk.Stack'' [Ref scope, Str id', props],
      New ''s3.Bucket'' [Ref (length tr0), Str ''WebAppS3'', Obj [
         (''bucketName'', Str ''my-webapp-bucket''),
         (''removalPolicy'', Enum ''cdk.RemovalPolicy'' ''DESTROY'')]],
      New ''cloudfront.S3Origin'' [Ref (length tr0 + 1)],
      New ''cloudfront.Distribution'' [Ref (length tr0), Str ''ContentDelivery'', Obj [
         (''defaultBehavior'', Obj [(''origin'', Ref (length tr0 + 2))])]],
      New ''cdk.CfnOutput'' [Ref (length tr0), Str ''WebsiteURL'', Obj [
         (''value'', Attr (length tr0 + 3) ''distributionDomainName'')]]]"
  using assms
  by (auto simp: WebAppStack_def and_then_Inr perform_Inr result_Inr)

lemma calls_since_append: "calls_since tr0 (tr0 @ cs) = cs"
  by (simp add: calls_since_def)

subsection \<open>A run that returns is the run against the accepting SDK\<close>

lemma perform_accepting:
  "perform sdk c tr = Inr r \<Longrightarrow> perform accepting c tr = Inr r"
  by (auto simp: perform_def accepting_def split: option.splits)

lemma and_then_accepting:
  assumes "and_then m f tr = Inr r"
    and "\<And>r'. m tr = Inr r' \<Longrightarrow> m' tr = Inr r'"
    and "\<And>x tr'. f x tr' = Inr r \<Longrightarrow> f' x tr' = Inr r"
  shows "and_then m' f' tr = Inr r"
  using assms by (auto simp: and_then_Inr)

lemmas run_defs = and_then_def perform_def result_def accepting_def

subsection \<open>The calls of each constructor, when it returns\<close>

lemma DynamoDBConstruct_accepting:
  "DynamoDBConstruct sdk scope id' props tr0 = Inr r \<Longrightarrow> DynamoDBConstruct accepting scope id' props tr0 = Inr r"
  unfolding DynamoDBConstruct_def
  by (erule and_then_accepting perform_accepting | assumption)+

lemma CognitoConstruct_accepting:
  "CognitoConstruct sdk scope id' props tr0 = Inr r \<Longrightarrow> CognitoConstruct accepting scope id' props tr0 = Inr r"
  unfolding CognitoConstruct_def
  by (erule and_then_accepting perform_accepting | assumption)+

lemma ElastiCacheConstruct_accepting:
  "ElastiCacheConstruct sdk scope id' props tr0 = Inr r \<Longrightarrow> ElastiCacheConstruct accepting scope id' props tr0 = Inr r"
  unfolding ElastiCacheConstruct_def
  by (erule and_then_accepting perform_accepting | assumption)+

lemma CloudWatchConstruct_accepting:
  "CloudWatchConstruct sdk scope id' props tr0 = Inr r \<Longrightarrow> CloudWatchConstruct accepting scope id' props tr0 = Inr r"
  unfolding CloudWatchConstruct_def
  by (erule and_then_accepting perform_accepting | assumption)+

lemma AuthLambdaConstruct_accepting:
  "AuthLambdaConstruct sdk scope id' props tr0 = Inr r \<Longrightarrow> AuthLambdaConstruct accepting scope id' props tr0 = Inr r"
  unfolding AuthLambdaConstruct_def
  by (erule and_then_accepting perform_accepting | assumption)+

lemma ApiGatewayConstruct_accepting:
  "ApiGatewayConstruct sdk scope id' props tr0 = Inr r \<Longrightarrow> ApiGatewayConstruct accepting scope id' props tr0 = Inr r"
  unfolding ApiGatewayConstruct_def
  by (erule and_then_accepting perform_accepting | assumption)+





lemma AuthLambdaConstruct_trace:
  assumes "AuthLambdaConstruct sdk scope id' props tr0 = Inr (r, tr)"
  shows "r = \<lparr>node = length tr0, lambdaFunction = length tr0 + 2\<rparr> \<and>
     tr = tr0 @ [
      New ''Construct'' [Ref scope, Str id'],
      Static ''lambda.Code'' ''fromAsset'' [Str (codePath props)],
      New ''lambda.Function'' [Ref (length tr0), Str (functionName props), Obj [
         (''runtime'', Enum ''lambda.Runtime'' ''PYTHON_3_9''),
         (''handler'', Str (handler props)),
         (''code'', Ref (length tr0 + 1)),
         (''vpc'', Ref (AuthLambdaConstructProps.vpc props)),
         (''securityGroups'', Arr (map Ref (securityGroups props))),
         (''environment'', Obj (environment props))]],
      New ''iam.PolicyStatement'' [Obj [
         (''actions'', Arr [Str ''dynamodb:*'', Str ''cognito-idp:*'',
                            Str ''elasticache:*'', Str ''logs:*'']),
         (''resources'', Arr [Str ''*''])]],
      Method (length tr0 + 2) ''addToRolePolicy'' [Ref (length tr0 + 3)]]"
proof -
  have "AuthLambdaConstruct accepting scope id' props tr0 = Inr (r, tr)"
    using assms by (rule AuthLambdaConstruct_accepting)
  then show ?thesis
    by (auto simp add: AuthLambdaConstruct_def run_defs)
qed

lemma ApiGatewayConstruct_trace:
  assumes "ApiGatewayConstruct sdk scope id' props tr0 = Inr (r, tr)"
  shows "r = \<lparr>node = length tr0, apiGateway = length tr0 + 2\<rparr> \<and>
     tr = tr0 @ [
      New ''Construct'' [Ref scope, Str id'],
      New ''apigateway.LambdaIntegration'' [Ref (ApiGatewayConstructProps.lambdaFunction props)],
      New ''apigateway.RestApi'' [Ref (length tr0), Str (apigatewayName props), Obj [
         (''restApiName'', Str (restApiName props)),
         (''defaultCorsPreflightOptions'', Obj [
            (''allowHeaders'', Arr [Str ''Content-Type'', Str ''X-Amz-Date'',
                                    Str ''Authorization'', Str ''X-Api-Key'']),
            (''allowMethods'', Arr [Str ''POST'']),
            (''allowCredentials'', Bool True),
            (''allowOrigins'', Arr (map Str (allowedOrigins props)))]),
         (''description'', Str (case description props of None \<Rightarrow> [] | Some d \<Rightarrow> d)),
         (''endpointExportName'', Str ''ServiceRequestAPI''),
         (''deployOptions'', Obj [
            (''stageName'', Str ''prod''),
            (''loggingLevel'', Enum ''apigateway.MethodLoggingLevel'' ''INFO''),
            (''dataTraceEnabled'', Bool True),
            (''metricsEnabled'', Bool True)]),
         (''cloudWatchRole'', Bool True),
         (''cloudWatchRoleRemovalPolicy'', Enum ''cdk.RemovalPolicy'' ''DESTROY''),
         (''defaultIntegration'', Ref (length tr0 + 1)),
         (''failOnWarnings'', Bool True),
         (''retainDeployments'', Bool False),
         (''defaultMethodOptions'', Obj [
            (''methodResponses'', Arr [Obj [(''statusCode'', Str ''200'')]]),
            (''operationName'', Str ''ServiceRequest''),
            (''requestParameters'', Obj [
               (''method.request.header.Authorization'', Bool True),
               (''method.request.header.Content-Type'', Bool True),
               (''method.request.header.Custom-Header'', Bool True),
               (''method.request.querystring.myParam'', Bool True)]),
            (''authorizationType'', Enum ''apigateway.AuthorizationType'' ''NONE'')])]]]"
proof -
  have "ApiGatewayConstruct accepting scope id' props tr0 = Inr (r, tr)"
    using assms by (rule ApiGatewayConstruct_accepting)
  then show ?thesis
    by (auto simp add: ApiGatewayConstruct_def run_defs)
qed


lemma MyStack_accepting:
  "MyStack sdk scope id' props tr0 = Inr r \<Longrightarrow> MyStack accepting scope id' props tr0 = Inr r"
  unfolding MyStack_def
  by (erule and_then_accepting perform_accepting DynamoDBConstruct_accepting
        CognitoConstruct_accepting ElastiCacheConstruct_accepting CloudWatchConstruct_accepting
        AuthLambdaConstruct_accepting ApiGatewayConstruct_accepting | assumption)+

lemma MyStack_trace:
  assumes "MyStack sdk scope id' props tr0 = Inr (this, tr)"
  shows "this = length tr0 \<and>
     tr = tr0 @ [
      New ''cdk.Stack'' [Ref scope, Str id', props],
      New ''ec2.Vpc'' [Ref (length tr0), Str ''Vpc'', Obj [
         (''maxAzs'', Num 3),
         (''natGateways'', Num 1)]],
      New ''ec2.SecurityGroup'' [Ref (length tr0), Str ''SecurityGroup'', Obj [
         (''vpc'', Ref (length tr0 + 1)),
         (''allowAllOutbound'', Bool True)]],
      New ''Construct'' [Ref (length tr0), Str ''DynamoDBConstruct''],
      New ''dynamodb.Table'' [Ref (length tr0 + 3), Str ''MyTable'', Obj [
         (''tableName'', Str ''MyTable''),
         (''partitionKey'', Obj [
            (''name'', Str ''ID''),
            (''type'', Enum ''dynamodb.AttributeType'' ''STRING'')]),
         (''removalPolicy'', Enum ''cdk.RemovalPolicy'' ''DESTROY'')]],
      New ''Construct'' [Ref (length tr0), Str ''CognitoConstruct''],
      New ''cognito.UserPool'' [Ref (length tr0 + 5), Str ''MyUserPool'', Obj [
         (''userPoolName'', Str ''MyUserPool''),
         (''selfSignUpEnabled'', Bool True)]],
      New ''cognito.UserPoolClient'' [Ref (length tr0 + 5), Str ''MyUserPoolClient'', Obj [
         (''userPool'', Ref (length tr0 + 6))]],
      New ''Construct'' [Ref (length tr0), Str ''ElastiCacheConstruct''],
      New ''elasticache.CfnCacheCluster'' [Ref (length tr0 + 8), Str ''MyCacheCluster'', Obj [
         (''vpcSecurityGroupIds'', Arr [Attr (length tr0 + 2) ''securityGroupId'']),
         (''cacheNodeType'', Str ''cache.t2.micro''),
         (''engine'', Str ''redis''),
         (''numCacheNodes'', Num 1),
         (''clusterName'', Str ''MyCacheCluster'')]],
      New ''Construct'' [Ref (length tr0), Str ''CloudWatchConstruct''],
      New ''logs.LogGroup'' [Ref (length tr0 + 10), Str ''MyLogGroup'', Obj [
         (''logGroupName'', Str ''MyLogGroup''),
         (''retention'', Enum ''logs.RetentionDays'' ''ONE_MONTH''),
         (''removalPolicy'', Enum ''cdk.RemovalPolicy'' ''DESTROY'')]],
      New ''Construct'' [Ref (length tr0), Str ''AuthLambdaConstruct''],
      Static ''lambda.Code'' ''fromAsset'' [Str ''path/to/your/code''],
      New ''lambda.Function'' [Ref (length tr0 + 12), Str ''AuthLambdaFunction'', Obj [
         (''runtime'', Enum ''lambda.Runtime'' ''PYTHON_3_9''),
         (''handler'', Str ''index.handler''),
         (''code'', Ref (length tr0 + 13)),
         (''vpc'', Ref (length tr0 + 1)),
         (''securityGroups'', Arr [Ref (length tr0 + 2)]),
         (''environment'', Obj [
            (''DYNAMODB_TABLE'', Attr (length tr0 + 4) ''tableName''),
            (''USER_POOL_ID'', Attr (length tr0 + 6) ''userPoolId''),
            (''CACHE_CLUSTER_ID'', Attr (length tr0 + 9) ''ref''),
            (''LOG_GROUP_NAME'', Attr (length tr0 + 11) ''logGroupName'')])]],
      New ''iam.PolicyStatement'' [Obj [
         (''actions'', Arr [Str ''dynamodb:*'', Str ''cognito-idp:*'',
                            Str ''elasticache:*'', Str ''logs:*'']),
         (''resources'', Arr [Str ''*''])]],
      Method (length tr0 + 14) ''addToRolePolicy'' [Ref (length tr0 + 15)],
      New ''Construct'' [Ref (length tr0), Str ''ApiGatewayConstruct''],
      New ''apigateway.LambdaIntegration'' [Ref (length tr0 + 14)],
      New ''apigateway.RestApi'' [Ref (length tr0 + 17), Str ''MyApiGatewayName'', Obj [
         (''restApiName'', Str ''MyApiGateway''),
         (''defaultCorsPreflightOptions'', Obj [
            (''allowHeaders'', Arr [Str ''Content-Type'', Str ''X-Amz-Date'',
                                    Str ''Authorization'', Str ''X-Api-Key'']),
            (''allowMethods'', Arr [Str ''POST'']),
            (''allowCredentials'', Bool True),
            (''allowOrigins'', Arr [Str ''*''])]),
         (''description'', Str []),
         (''endpointExportName'', Str ''ServiceRequestAPI''),
         (''deployOptions'', Obj [
            (''stageName'', Str ''prod''),
            (''loggingLevel'', Enum ''apigateway.MethodLoggingLevel'' ''INFO''),
            (''dataTraceEnabled'', Bool True),
            (''metricsEnabled'', Bool True)]),
         (''cloudWatchRole'', Bool True),
         (''cloudWatchRoleRemovalPolicy'', Enum ''cdk.RemovalPolicy'' ''DESTROY''),
         (''defaultIntegration'', Ref (length tr0 + 18)),
         (''failOnWarnings'', Bool True),
         (''retainDeployments'', Bool False),
         (''defaultMethodOptions'', Obj [
            (''methodResponses'', Arr [Obj [(''statusCode'', Str ''200'')]]),
            (''operationName'', Str ''ServiceRequest''),
            (''requestParameters'', Obj [
               (''method.request.header.Authorization'', Bool True),
               (''method.request.header.Content-Type'', Bool True),
               (''method.request.header.Custom-Header'', Bool True),
               (''method.request.querystring.myParam'', Bool True)]),
            (''authorizationType'', Enum ''apigateway.AuthorizationType'' ''NONE'')])]]]"
proof -
  have "MyStack accepting scope id' props tr0 = Inr (this, tr)"
    using assms by (rule MyStack_accepting)
  then show ?thesis
    by (auto simp add: MyStack_def DynamoDBConstruct_def CognitoConstruct_def
          ElastiCacheConstruct_def CloudWatchConstruct_def AuthLambdaConstruct_def
          ApiGatewayConstruct_def run_defs)
qed


lemmas constructor_defs = MyStack_def DynamoDBConstruct_def CognitoConstruct_def
  ElastiCacheConstruct_def CloudWatchConstruct_def AuthLambdaConstruct_def
  ApiGatewayConstruct_def WebAppStack_def

subsection \<open>Every constructor is the replay of its calls\<close>

lemma replay_append:
  "replay sdk (cs1 @ cs2) tr =
     (case replay sdk cs1 tr of Inl e \<Rightarrow> Inl e | Inr t \<Rightarrow> replay sdk cs2 t)"
  by (induction cs1 arbitrary: tr) (auto split: option.splits)

lemma replay_Inr: "replay sdk cs tr = Inr t \<Longrightarrow> t = tr @ cs"
proof (induction cs arbitrary: tr)
  case Nil
  then show ?case by simp
next
  case (Cons c cs)
  from Cons.prems have "replay sdk cs (tr @ [c]) = Inr t"
    by (simp split: option.splits)
  then have "t = (tr @ [c]) @ cs" by (rule Cons.IH)
  then show ?case by simp
qed

lemma straight_perform: "straight (\<lambda>sdk. perform sdk c)"
  unfolding straight_def
proof
  fix tr
  have "perform accepting c tr = Inr (length tr, tr @ [c])"
    by (simp add: perform_def accepting_def)
  moreover have "perform sdk c tr =
      (case replay sdk [c] tr of Inl e \<Rightarrow> Inl e | Inr t \<Rightarrow> Inr (length tr, t))" for sdk
    by (simp add: perform_def split: option.splits)
  ultimately show "\<exists>x cs. perform accepting c tr = Inr (x, tr @ cs) \<and>
      (\<forall>sdk. perform sdk c tr =
         (case replay sdk cs tr of Inl e \<Rightarrow> Inl e | Inr t \<Rightarrow> Inr (x, t)))"
    by blast
qed

lemma straight_result: "straight (\<lambda>sdk. result x)"
  unfolding straight_def
proof
  fix tr
  have "result x tr = Inr (x, tr @ [])" by (simp add: result_def)
  moreover have "result x tr =
      (case replay sdk [] tr of Inl e \<Rightarrow> Inl e | Inr t \<Rightarrow> Inr (x, t))" for sdk
    by (simp add: result_def)
  ultimately show "\<exists>y cs. result x tr = Inr (y, tr @ cs) \<and>
      (\<forall>sdk. result x tr =
         (case replay sdk cs tr of Inl e \<Rightarrow> Inl e | Inr t \<Rightarrow> Inr (y, t)))"
    by blast
qed

lemma straight_and_then:
  assumes M: "straight M" and F: "\<And>x. straight (F x)"
  shows "straight (\<lambda>sdk. and_then (M sdk) (\<lambda>x. F x sdk))"
  unfolding straight_def
proof
  fix tr
  from M obtain x1 cs1 where
    a1: "M accepting tr = Inr (x1, tr @ cs1)" and
    s1: "\<And>sdk. M sdk tr = (case replay sdk cs1 tr of Inl e \<Rightarrow> Inl e | Inr t \<Rightarrow> Inr (x1, t))"
    unfolding straight_def by blast
  from F [of x1] obtain x2 cs2 where
    a2: "F x1 accepting (tr @ cs1) = Inr (x2, (tr @ cs1) @ cs2)" and
    s2: "\<And>sdk. F x1 sdk (tr @ cs1) =
           (case replay sdk cs2 (tr @ cs1) of Inl e \<Rightarrow> Inl e | Inr t \<Rightarrow> Inr (x2, t))"
    unfolding straight_def by blast
  have a: "and_then (M accepting) (\<lambda>x. F x accepting) tr = Inr (x2, tr @ (cs1 @ cs2))"
    using a1 a2 by (simp add: and_then_def)
  have s: "and_then (M sdk) (\<lambda>x. F x sdk) tr =
      (case replay sdk (cs1 @ cs2) tr of Inl e \<Rightarrow> Inl e | Inr t \<Rightarrow> Inr (x2, t))" for sdk
  proof (cases "replay sdk cs1 tr")
    case (Inl e)
    then show ?thesis by (simp add: and_then_def s1 replay_append)
  next
    case (Inr t)
    then have t: "t = tr @ cs1" by (rule replay_Inr)
    with Inr show ?thesis by (simp add: and_then_def s1 s2 replay_append)
  qed
  from a s show "\<exists>x cs. and_then (M accepting) (\<lambda>x. F x accepting) tr = Inr (x, tr @ cs) \<and>
      (\<forall>sdk. and_then (M sdk) (\<lambda>x. F x sdk) tr =
         (case replay sdk cs tr of Inl e \<Rightarrow> Inl e | Inr t \<Rightarrow> Inr (x, t)))"
    by blast
qed

lemma straight_outcome:
  assumes "straight M"
  shows "outcome (M sdk) tr = replay sdk (calls_made (M accepting) tr) tr"
proof -
  from assms obtain x cs where
    a: "M accepting tr = Inr (x, tr @ cs)" and
    s: "M sdk tr = (case replay sdk cs tr of Inl e \<Rightarrow> Inl e | Inr t \<Rightarrow> Inr (x, t))"
    unfolding straight_def by blast
  from a have "calls_made (M accepting) tr = cs"
    by (simp add: calls_made_def calls_since_def)
  with s show ?thesis
    by (simp add: outcome_def split: sum.splits)
qed

lemmas straight_intros = straight_and_then straight_perform straight_result

lemma straight_WebAppStack: "straight (\<lambda>sdk. WebAppStack sdk scope id' props)"
  unfolding WebAppStack_def by (intro straight_intros)

lemma straight_ApiGatewayConstruct: "straight (\<lambda>sdk. ApiGatewayConstruct sdk scope id' props)"
  unfolding ApiGatewayConstruct_def by (intro straight_intros)

lemma straight_AuthLambdaConstruct: "straight (\<lambda>sdk. AuthLambdaConstruct sdk scope id' props)"
  unfolding AuthLambdaConstruct_def by (intro straight_intros)

lemma straight_DynamoDBConstruct: "straight (\<lambda>sdk. DynamoDBConstruct sdk scope id' props)"
  unfolding DynamoDBConstruct_def by (intro straight_intros)

lemma straight_CognitoConstruct: "straight (\<lambda>sdk. CognitoConstruct sdk scope id' props)"
  unfolding CognitoConstruct_def by (intro straight_intros)

lemma straight_ElastiCacheConstruct: "straight (\<lambda>sdk. ElastiCacheConstruct sdk scope id' props)"
  unfolding ElastiCacheConstruct_def by (intro straight_intros)

lemma straight_CloudWatchConstruct: "straight (\<lambda>sdk. CloudWatchConstruct sdk scope id' props)"
  unfolding CloudWatchConstruct_def by (intro straight_intros)

lemma straight_MyStack: "straight (\<lambda>sdk. MyStack sdk scope id' props)"
  unfolding MyStack_def
  by (intro straight_intros straight_ApiGatewayConstruct straight_AuthLambdaConstruct
        straight_DynamoDBConstruct straight_CognitoConstruct straight_ElastiCacheConstruct
        straight_CloudWatchConstruct)

subsection \<open>The name \<open>cloudfront.S3Origin\<close>\<close>

lemma S3Origin_unresolved:
  assumes "''S3Origin'' \<notin> set (lib ''aws-cdk-lib/aws-cloudfront'')"
  shows "''cloudfront.S3Origin'' \<notin> set (members lib SplitItUI_cdk_stack_imports)"
  using assms by (auto simp: members_def SplitItUI_cdk_stack_imports_def)

section \<open>The test's import\<close>

text \<open>
  With its binding unresolved, the test never reaches its assertions: it ends in the SDK's
  error on making the app, or in the \<open>TypeError\<close> of \<open>new cdk_Stack\<close>.
\<close>

lemma test_ends_in_error:
  "test_SQS_Queue_and_SNS_Topic_Created sdk tr0 =
     (case sdk (New ''cdk.App'' []) tr0 of
        Some e \<Rightarrow> Inl e
      | None \<Rightarrow> Inl (TypeError ''cdk_Stack is not a constructor''))"
  by (simp add: test_SQS_Queue_and_SNS_Topic_Created_def test_cdk_Stack_def import_default_def
        SplitItUI_cdk_stack_def and_then_def perform_def split: option.splits)

text \<open>
  C1. The test file takes the stack class from the SplitItUI stack module as a default
  import called \<open>cdk_Stack\<close>. The module has exactly one export, the class under the name
  \<open>WebAppStack\<close>, and no default export; so the imported binding has no value, and in
  particular is not the exported class.
\<close>

theorem test_default_import_unresolved:
  "test_cdk_Stack = import_default SplitItUI_cdk_stack
   \<and> SplitItUI_cdk_stack = [(''WebAppStack'', WebAppStack_class)]
   \<and> import_named SplitItUI_cdk_stack ''WebAppStack'' = Some WebAppStack_class
   \<and> import_default SplitItUI_cdk_stack = None
   \<and> test_cdk_Stack \<noteq> Some WebAppStack_class"
  by (simp add: test_cdk_Stack_def import_default_def import_named_def SplitItUI_cdk_stack_def)

section \<open>The SplitItUI stack and the test's assertions\<close>

text \<open>
  C2. Whenever the SplitItUI web-app stack is constructed, the template of what it declares
  holds no resource of type \<open>AWS::SQS::Queue\<close> and none of type \<open>AWS::SNS::Topic\<close>, so
  neither assertion of the test holds of it: there is no queue with \<open>VisibilityTimeout\<close>
  300, and the number of topics is not one. The calls of the stack are five constructor
  calls, of the classes of \<open>WebAppStack_classes\<close> in that order; the statement is for
  every synthesis under which none of those classes emits a queue or a topic.
\<close>

theorem WebAppStack_template_no_queue_no_topic:
  assumes run: "WebAppStack sdk scope id' props tr0 = Inr (this, tr)"
    and emits: "\<forall>cls\<in>set WebAppStack_classes. \<forall>args. \<forall>r\<in>set (cfn (New cls args)).
                  fst r \<noteq> ''AWS::SQS::Queue'' \<and> fst r \<noteq> ''AWS::SNS::Topic''"
  shows "map kind_of (calls_since tr0 tr) = map Constructor WebAppStack_classes
     \<and> filter (\<lambda>r. fst r = ''AWS::SQS::Queue'' \<or> fst r = ''AWS::SNS::Topic'')
           (template cfn (calls_since tr0 tr)) = []
     \<and> \<not> hasResourceProperties (template cfn (calls_since tr0 tr))
           ''AWS::SQS::Queue'' [(''VisibilityTimeout'', Num 300)]
     \<and> \<not> resourceCountIs (template cfn (calls_since tr0 tr)) ''AWS::SNS::Topic'' 1"
proof -
  note t = WebAppStack_trace [OF run]
  have none: "\<forall>r\<in>set (template cfn (calls_since tr0 tr)).
                fst r \<noteq> ''AWS::SQS::Queue'' \<and> fst r \<noteq> ''AWS::SNS::Topic''"
    using emits by (auto simp add: t calls_since_append template_def WebAppStack_classes_def)
  have a: "filter (\<lambda>r. fst r = ''AWS::SQS::Queue'' \<or> fst r = ''AWS::SNS::Topic'')
           (template cfn (calls_since tr0 tr)) = []"
    using none by (auto simp: filter_empty_conv)
  have b: "\<not> hasResourceProperties (template cfn (calls_since tr0 tr))
           ''AWS::SQS::Queue'' [(''VisibilityTimeout'', Num 300)]"
    using none by (auto simp: hasResourceProperties_def list_ex_iff)
  have "filter (\<lambda>r. fst r = ''AWS::SNS::Topic'') (template cfn (calls_since tr0 tr)) = []"
    using none by (auto simp: filter_empty_conv)
  then have c: "\<not> resourceCountIs (template cfn (calls_since tr0 tr)) ''AWS::SNS::Topic'' 1"
    by (simp add: resourceCountIs_def)
  have k: "map kind_of (calls_since tr0 tr) = map Constructor WebAppStack_classes"
    by (simp add: t calls_since_append WebAppStack_classes_def)
  from k a b c show ?thesis by blast
qed

theorem WebAppStack_template_no_queue_no_topic_witness:
  "\<exists>this tr. WebAppStack accepting 0 ''MyTestStack'' Undefined [New ''cdk.App'' []] = Inr (this, tr) \<and>
     template sample_cfn (calls_since [New ''cdk.App'' []] tr) =
       [(''AWS::S3::Bucket'', []), (''AWS::CloudFront::Distribution'', [])] \<and>
     \<not> hasResourceProperties (template sample_cfn (calls_since [New ''cdk.App'' []] tr))
           ''AWS::SQS::Queue'' [(''VisibilityTimeout'', Num 300)] \<and>
     \<not> resourceCountIs (template sample_cfn (calls_since [New ''cdk.App'' []] tr)) ''AWS::SNS::Topic'' 1"
proof -
  obtain this tr where
    run: "WebAppStack accepting 0 ''MyTestStack'' Undefined [New ''cdk.App'' []] = Inr (this, tr)"
    by (simp add: WebAppStack_def run_defs)
  have emits: "\<forall>cls\<in>set WebAppStack_classes. \<forall>args. \<forall>r\<in>set (sample_cfn (New cls args)).
                  fst r \<noteq> ''AWS::SQS::Queue'' \<and> fst r \<noteq> ''AWS::SNS::Topic''"
    by (simp add: WebAppStack_classes_def)
  have tpl: "template sample_cfn (calls_since [New ''cdk.App'' []] tr) =
       [(''AWS::S3::Bucket'', []), (''AWS::CloudFront::Distribution'', [])]"
    using run by (auto simp add: WebAppStack_def run_defs template_def calls_since_def)
  from WebAppStack_template_no_queue_no_topic [OF run emits] run tpl show ?thesis
    by blast
qed

section \<open>The bucket, the distribution and the origin\<close>

text \<open>
  What the constructor sets out to do: were it to return, the distribution's default
  behaviour would have as its origin an \<open>S3Origin\<close> made from the one bucket the same
  stack declared before it, and the stack's one output would be the domain name of that
  distribution.
\<close>

lemma WebAppStack_attempted_wiring:
  assumes "WebAppStack sdk scope id' props tr0 = Inr (this, tr)"
  shows "\<exists>bucket origin dist.
      this < bucket \<and> bucket < origin \<and> origin < dist \<and> dist < length tr \<and>
      tr ! this = New ''cdk.Stack'' [Ref scope, Str id', props] \<and>
      news ''s3.Bucket'' (calls_since tr0 tr) = [tr ! bucket] \<and>
      scope_of (tr ! bucket) = Some this \<and>
      tr ! origin = New ''cloudfront.S3Origin'' [Ref bucket] \<and>
      news ''cloudfront.Distribution'' (calls_since tr0 tr) = [tr ! dist] \<and>
      scope_of (tr ! dist) = Some this \<and>
      property [''defaultBehavior'', ''origin''] (tr ! dist) = Some (Ref origin) \<and>
      news ''cdk.CfnOutput'' (calls_since tr0 tr) =
        [New ''cdk.CfnOutput'' [Ref this, Str ''WebsiteURL'',
           Obj [(''value'', Attr dist ''distributionDomainName'')]]]"
proof -
  note t = WebAppStack_trace [OF assms]
  show ?thesis
    apply (rule exI [of _ "length tr0 + 1"])
    apply (rule exI [of _ "length tr0 + 2"])
    apply (rule exI [of _ "length tr0 + 3"])
    apply (simp add: t calls_since_append news_def property_def nth_append)
    done
qed

text \<open>
  C5. The claim is that the stack wires its bucket to the distribution as the origin of
  the default behaviour, and outputs the distribution's domain name. The constructor
  names the origin class \<open>cloudfront.S3Origin\<close>, and \<open>cloudfront\<close> is the module
  \<open>aws-cdk-lib/aws-cloudfront\<close>. Under every library in which that module has no member
  \<open>S3Origin\<close>, whatever the SDK does, the constructor ends in an error: the SDK's on the
  stack or on the bucket, or else the \<open>TypeError\<close> of \<open>new cloudfront.S3Origin\<close>. It
  never returns, and never comes to the distribution or to the output.
\<close>

theorem WebAppStack_stops_at_S3Origin:
  assumes "''S3Origin'' \<notin> set (lib ''aws-cdk-lib/aws-cloudfront'')"
  shows "WebAppStack (under_imports lib SplitItUI_cdk_stack_imports sdk) scope id' props tr0 =
     (case under_imports lib SplitItUI_cdk_stack_imports sdk
             (New ''cdk.Stack'' [Ref scope, Str id', props]) tr0 of
        Some e \<Rightarrow> Inl e
      | None \<Rightarrow>
         (case under_imports lib SplitItUI_cdk_stack_imports sdk
                 (New ''s3.Bucket'' [Ref (length tr0), Str ''WebAppS3'', Obj [
                    (''bucketName'', Str ''my-webapp-bucket''),
                    (''removalPolicy'', Enum ''cdk.RemovalPolicy'' ''DESTROY'')]])
                 (tr0 @ [New ''cdk.Stack'' [Ref scope, Str id', props]]) of
            Some e \<Rightarrow> Inl e
          | None \<Rightarrow> Inl (TypeError ''cloudfront.S3Origin is not a constructor'')))"
proof -
  have u: "under_imports lib SplitItUI_cdk_stack_imports sdk (New ''cloudfront.S3Origin'' args) tr =
        Some (TypeError ''cloudfront.S3Origin is not a constructor'')" for args tr
    using S3Origin_unresolved [where lib = lib, OF assms] by simp
  show ?thesis
    unfolding WebAppStack_def
    by (simp add: and_then_def perform_def u split: option.splits del: under_imports.simps)
qed

theorem WebAppStack_stops_at_S3Origin_witness:
  "''S3Origin'' \<notin> set (aws_cdk_lib ''aws-cdk-lib/aws-cloudfront'') \<and>
   WebAppStack (under_imports aws_cdk_lib SplitItUI_cdk_stack_imports accepting) 0 ''CdkStack''
      (Obj []) [New ''cdk.App'' []] =
     Inl (TypeError ''cloudfront.S3Origin is not a constructor'')"
proof -
  have h: "''S3Origin'' \<notin> set (aws_cdk_lib ''aws-cdk-lib/aws-cloudfront'')"
    by (simp add: aws_cdk_lib_def)
  have a: "under_imports aws_cdk_lib SplitItUI_cdk_stack_imports accepting
             (New ''cdk.Stack'' [Ref 0, Str ''CdkStack'', Obj []]) [New ''cdk.App'' []] = None"
    by (simp add: aws_cdk_lib_def members_def SplitItUI_cdk_stack_imports_def accepting_def)
  have b: "under_imports aws_cdk_lib SplitItUI_cdk_stack_imports accepting
                 (New ''s3.Bucket'' [Ref (length [New ''cdk.App'' []]), Str ''WebAppS3'', Obj [
                    (''bucketName'', Str ''my-webapp-bucket''),
                    (''removalPolicy'', Enum ''cdk.RemovalPolicy'' ''DESTROY'')]])
                 ([New ''cdk.App'' []] @ [New ''cdk.Stack'' [Ref 0, Str ''CdkStack'', Obj []]]) = None"
    by (simp add: aws_cdk_lib_def members_def SplitItUI_cdk_stack_imports_def accepting_def)
  from WebAppStack_stops_at_S3Origin
    [where lib = aws_cdk_lib and sdk = accepting and scope = 0 and id' = "''CdkStack''"
       and props = "Obj []" and ?tr0.0 = "[New ''cdk.App'' []]", OF h]
  have "WebAppStack (under_imports aws_cdk_lib SplitItUI_cdk_stack_imports accepting) 0 ''CdkStack''
      (Obj []) [New ''cdk.App'' []] =
     Inl (TypeError ''cloudfront.S3Origin is not a constructor'')"
    by (simp only: a b option.case)
  with h show ?thesis by (rule conjI)
qed

section \<open>The bin script\<close>

text \<open>
  C4. The claim is that the bin script instantiates exactly one stack and triggers
  synthesis. The script makes the app and then applies \<open>new\<close> to its named import
  \<open>cdk_Stack\<close>, which the stack module does not export: whatever the SDK does, the run
  ends in an error, either the SDK's on making the app or the \<open>TypeError\<close> of the
  unresolved binding. No stack is instantiated and no \<open>synth\<close> call is reached.
\<close>

theorem bin_script_instantiates_no_stack:
  "SplitItUI_cdk_bin sdk tr0 =
     (case sdk (New ''cdk.App'' []) tr0 of
        Some e \<Rightarrow> Inl e
      | None \<Rightarrow> Inl (TypeError ''cdk_Stack is not a constructor''))"
  by (simp add: SplitItUI_cdk_bin_def bin_cdk_Stack_def import_named_def SplitItUI_cdk_stack_def
        and_then_def perform_def split: option.splits)

section \<open>The hard-coded property values\<close>

text \<open>
  C6. The property values are constants of the stack files, the same in every run that
  returns, whatever the SDK, the scope, the id and the stack props: bucket name
  \<open>my-webapp-bucket\<close>; table name \<open>MyTable\<close> with partition key \<open>ID\<close> of type string; user
  pool name \<open>MyUserPool\<close>; cache cluster id \<open>MyCacheCluster\<close> with node type
  \<open>cache.t2.micro\<close> and engine \<open>redis\<close>; log group name \<open>MyLogGroup\<close> with one-month
  retention; CORS origins \<open>['*']\<close> and methods \<open>['POST']\<close>; stage name \<open>prod\<close>.
\<close>

theorem hard_coded_property_values:
  "(WebAppStack sdk scope id' props tr0 = Inr (this, tr) \<longrightarrow>
      map (property [''bucketName'']) (news ''s3.Bucket'' (calls_since tr0 tr)) =
        [Some (Str ''my-webapp-bucket'')])
   \<and> (MyStack sdk scope id' props tr0 = Inr (this, tr) \<longrightarrow>
      map (\<lambda>c. (property [''tableName''] c, property [''partitionKey''] c))
          (news ''dynamodb.Table'' (calls_since tr0 tr)) =
        [(Some (Str ''MyTable''),
          Some (Obj [(''name'', Str ''ID''), (''type'', Enum ''dynamodb.AttributeType'' ''STRING'')]))]
      \<and> map (property [''userPoolName'']) (news ''cognito.UserPool'' (calls_since tr0 tr)) =
        [Some (Str ''MyUserPool'')]
      \<and> map (\<lambda>c. (ident_of c, property [''clusterName''] c, property [''cacheNodeType''] c,
                   property [''engine''] c))
          (news ''elasticache.CfnCacheCluster'' (calls_since tr0 tr)) =
        [(''MyCacheCluster'', Some (Str ''MyCacheCluster''), Some (Str ''cache.t2.micro''),
          Some (Str ''redis''))]
      \<and> map (\<lambda>c. (property [''logGroupName''] c, property [''retention''] c))
          (news ''logs.LogGroup'' (calls_since tr0 tr)) =
        [(Some (Str ''MyLogGroup''), Some (Enum ''logs.RetentionDays'' ''ONE_MONTH''))]
      \<and> map (\<lambda>c. (property [''defaultCorsPreflightOptions'', ''allowOrigins''] c,
                   property [''defaultCorsPreflightOptions'', ''allowMethods''] c,
                   property [''deployOptions'', ''stageName''] c))
          (news ''apigateway.RestApi'' (calls_since tr0 tr)) =
        [(Some (Arr [Str ''*'']), Some (Arr [Str ''POST'']), Some (Str ''prod''))])"
proof -
  have W: "map (property [''bucketName'']) (news ''s3.Bucket'' (calls_since tr0 tr)) =
        [Some (Str ''my-webapp-bucket'')]"
    if "WebAppStack sdk scope id' props tr0 = Inr (this, tr)"
    by (simp add: WebAppStack_trace [OF that] calls_since_append news_def property_def)
  have M: "map (\<lambda>c. (property [''tableName''] c, property [''partitionKey''] c))
          (news ''dynamodb.Table'' (calls_since tr0 tr)) =
        [(Some (Str ''MyTable''),
          Some (Obj [(''name'', Str ''ID''), (''type'', Enum ''dynamodb.AttributeType'' ''STRING'')]))]
      \<and> map (property [''userPoolName'']) (news ''cognito.UserPool'' (calls_since tr0 tr)) =
        [Some (Str ''MyUserPool'')]
      \<and> map (\<lambda>c. (ident_of c, property [''clusterName''] c, property [''cacheNodeType''] c,
                   property [''engine''] c))
          (news ''elasticache.CfnCacheCluster'' (calls_since tr0 tr)) =
        [(''MyCacheCluster'', Some (Str ''MyCacheCluster''), Some (Str ''cache.t2.micro''),
          Some (Str ''redis''))]
      \<and> map (\<lambda>c. (property [''logGroupName''] c, property [''retention''] c))
          (news ''logs.LogGroup'' (calls_since tr0 tr)) =
        [(Some (Str ''MyLogGroup''), Some (Enum ''logs.RetentionDays'' ''ONE_MONTH''))]
      \<and> map (\<lambda>c. (property [''defaultCorsPreflightOptions'', ''allowOrigins''] c,
                   property [''defaultCorsPreflightOptions'', ''allowMethods''] c,
                   property [''deployOptions'', ''stageName''] c))
          (news ''apigateway.RestApi'' (calls_since tr0 tr)) =
        [(Some (Arr [Str ''*'']), Some (Arr [Str ''POST'']), Some (Str ''prod''))]"
    if "MyStack sdk scope id' props tr0 = Inr (this, tr)"
    by (simp add: MyStack_trace [OF that] calls_since_append news_def property_def)
  from W M show ?thesis by blast
qed

theorem hard_coded_property_values_witness:
  "(\<exists>x tr. WebAppStack accepting 0 ''CdkStack'' (Obj []) [New ''cdk.App'' []] = Inr (x, tr) \<and>
      map (property [''bucketName'']) (news ''s3.Bucket'' (calls_since [New ''cdk.App'' []] tr)) =
        [Some (Str ''my-webapp-bucket'')])
   \<and> (\<exists>x tr. MyStack accepting 0 ''MyStack'' Undefined [New ''cdk.App'' []] = Inr (x, tr) \<and>
      map (\<lambda>c. (property [''tableName''] c, property [''partitionKey''] c))
          (news ''dynamodb.Table'' (calls_since [New ''cdk.App'' []] tr)) =
        [(Some (Str ''MyTable''),
          Some (Obj [(''name'', Str ''ID''), (''type'', Enum ''dynamodb.AttributeType'' ''STRING'')]))]
      \<and> map (property [''userPoolName'']) (news ''cognito.UserPool'' (calls_since [New ''cdk.App'' []] tr)) =
        [Some (Str ''MyUserPool'')]
      \<and> map (\<lambda>c. (ident_of c, property [''clusterName''] c, property [''cacheNodeType''] c,
                   property [''engine''] c))
          (news ''elasticache.CfnCacheCluster'' (calls_since [New ''cdk.App'' []] tr)) =
        [(''MyCacheCluster'', Some (Str ''MyCacheCluster''), Some (Str ''cache.t2.micro''),
          Some (Str ''redis''))]
      \<and> map (\<lambda>c. (property [''logGroupName''] c, property [''retention''] c))
          (news ''logs.LogGroup'' (calls_since [New ''cdk.App'' []] tr)) =
        [(Some (Str ''MyLogGroup''), Some (Enum ''logs.RetentionDays'' ''ONE_MONTH''))]
      \<and> map (\<lambda>c. (property [''defaultCorsPreflightOptions'', ''allowOrigins''] c,
                   property [''defaultCorsPreflightOptions'', ''allowMethods''] c,
                   property [''deployOptions'', ''stageName''] c))
          (news ''apigateway.RestApi'' (calls_since [New ''cdk.App'' []] tr)) =
        [(Some (Arr [Str ''*'']), Some (Arr [Str ''POST'']), Some (Str ''prod''))])"
proof -
  obtain x1 t1 where
    r0: "WebAppStack accepting 0 ''CdkStack'' (Obj []) [New ''cdk.App'' []] = Inr (x1, t1)"
    by (simp add: constructor_defs run_defs)
  note c0 = hard_coded_property_values [THEN conjunct1, THEN mp, OF r0]
  have w0: "\<exists>x tr. WebAppStack accepting 0 ''CdkStack'' (Obj []) [New ''cdk.App'' []] = Inr (x, tr) \<and>
      map (property [''bucketName'']) (news ''s3.Bucket'' (calls_since [New ''cdk.App'' []] tr)) =
        [Some (Str ''my-webapp-bucket'')]"
    by (rule exI [of _ x1], rule exI [of _ t1], rule conjI [OF r0 c0])
  obtain x2 t2 where
    r1: "MyStack accepting 0 ''MyStack'' Undefined [New ''cdk.App'' []] = Inr (x2, t2)"
    by (simp add: constructor_defs run_defs)
  note c1 = hard_coded_property_values [THEN conjunct2, THEN mp, OF r1]
  have w1: "\<exists>x tr. MyStack accepting 0 ''MyStack'' Undefined [New ''cdk.App'' []] = Inr (x, tr) \<and>
      map (\<lambda>c. (property [''tableName''] c, property [''partitionKey''] c))
          (news ''dynamodb.Table'' (calls_since [New ''cdk.App'' []] tr)) =
        [(Some (Str ''MyTable''),
          Some (Obj [(''name'', Str ''ID''), (''type'', Enum ''dynamodb.AttributeType'' ''STRING'')]))]
      \<and> map (property [''userPoolName'']) (news ''cognito.UserPool'' (calls_since [New ''cdk.App'' []] tr)) =
        [Some (Str ''MyUserPool'')]
      \<and> map (\<lambda>c. (ident_of c, property [''clusterName''] c, property [''cacheNodeType''] c,
                   property [''engine''] c))
          (news ''elasticache.CfnCacheCluster'' (calls_since [New ''cdk.App'' []] tr)) =
        [(''MyCacheCluster'', Some (Str ''MyCacheCluster''), Some (Str ''cache.t2.micro''),
          Some (Str ''redis''))]
      \<and> map (\<lambda>c. (property [''logGroupName''] c, property [''retention''] c))
          (news ''logs.LogGroup'' (calls_since [New ''cdk.App'' []] tr)) =
        [(Some (Str ''MyLogGroup''), Some (Enum ''logs.RetentionDays'' ''ONE_MONTH''))]
      \<and> map (\<lambda>c. (property [''defaultCorsPreflightOptions'', ''allowOrigins''] c,
                   property [''defaultCorsPreflightOptions'', ''allowMethods''] c,
                   property [''deployOptions'', ''stageName''] c))
          (news ''apigateway.RestApi'' (calls_since [New ''cdk.App'' []] tr)) =
        [(Some (Arr [Str ''*'']), Some (Arr [Str ''POST'']), Some (Str ''prod''))]"
    by (rule exI [of _ x2], rule exI [of _ t2], rule conjI [OF r1 c1])
  show ?thesis
    by (intro conjI w0 w1)
qed

section \<open>The wrapper classes of the GitAuthEngine stack\<close>




section \<open>No error handling of the repository's own\<close>

text \<open>
  No wrapper and no stack constructor catches, transforms or raises an error: each is the
  replay of the calls it makes against the accepting SDK. It ends with the error of the
  first call that is rejected, unchanged, and it returns only when none is.
\<close>

lemma constructors_replay_their_calls:
  "outcome (ApiGatewayConstruct sdk scope id' apiProps) tr =
     replay sdk (calls_made (ApiGatewayConstruct accepting scope id' apiProps) tr) tr"
  "outcome (AuthLambdaConstruct sdk scope id' lambdaProps) tr =
     replay sdk (calls_made (AuthLambdaConstruct accepting scope id' lambdaProps) tr) tr"
  "outcome (DynamoDBConstruct sdk scope id' tableProps) tr =
     replay sdk (calls_made (DynamoDBConstruct accepting scope id' tableProps) tr) tr"
  "outcome (CognitoConstruct sdk scope id' poolProps) tr =
     replay sdk (calls_made (CognitoConstruct accepting scope id' poolProps) tr) tr"
  "outcome (ElastiCacheConstruct sdk scope id' cacheProps) tr =
     replay sdk (calls_made (ElastiCacheConstruct accepting scope id' cacheProps) tr) tr"
  "outcome (CloudWatchConstruct sdk scope id' logProps) tr =
     replay sdk (calls_made (CloudWatchConstruct accepting scope id' logProps) tr) tr"
  "outcome (MyStack sdk scope id' props) tr =
     replay sdk (calls_made (MyStack accepting scope id' props) tr) tr"
  "outcome (WebAppStack sdk scope id' props) tr =
     replay sdk (calls_made (WebAppStack accepting scope id' props) tr) tr"
  by (rule straight_outcome [OF straight_ApiGatewayConstruct]
          straight_outcome [OF straight_AuthLambdaConstruct]
          straight_outcome [OF straight_DynamoDBConstruct]
          straight_outcome [OF straight_CognitoConstruct]
          straight_outcome [OF straight_ElastiCacheConstruct]
          straight_outcome [OF straight_CloudWatchConstruct]
          straight_outcome [OF straight_MyStack]
          straight_outcome [OF straight_WebAppStack])+

text \<open>
  C7. The claim is that any failure of a wrapper or of a stack constructor is the
  unmodified error the SDK raised. The SplitItUI stack breaks it: under every library in
  which \<open>aws-cdk-lib/aws-cloudfront\<close> has no member \<open>S3Origin\<close>, and against an SDK that
  raises nothing at all, the constructor still fails, with the run-time's \<open>TypeError\<close>.
\<close>

theorem WebAppStack_error_not_from_sdk:
  assumes "''S3Origin'' \<notin> set (lib ''aws-cdk-lib/aws-cloudfront'')"
  shows "\<exists>msg. WebAppStack (under_imports lib SplitItUI_cdk_stack_imports accepting)
                 scope id' props tr0 = Inl (TypeError msg)"
proof -
  have u: "under_imports lib SplitItUI_cdk_stack_imports accepting (New ''cloudfront.S3Origin'' args) tr =
        Some (TypeError ''cloudfront.S3Origin is not a constructor'')" for args tr
    using S3Origin_unresolved [where lib = lib, OF assms] by simp
  have i: "\<exists>msg. e = TypeError msg"
    if "under_imports lib SplitItUI_cdk_stack_imports accepting c tr = Some e" for c tr e
    using that by (cases c) (auto simp: accepting_def split: if_splits)
  show ?thesis
    unfolding WebAppStack_def
    by (auto simp add: and_then_def perform_def u split: option.splits
          simp del: under_imports.simps dest: i)
qed

theorem WebAppStack_error_not_from_sdk_witness:
  "''S3Origin'' \<notin> set (aws_cdk_lib ''aws-cdk-lib/aws-cloudfront'') \<and>
   (\<exists>msg. WebAppStack (under_imports aws_cdk_lib SplitItUI_cdk_stack_imports accepting)
             0 ''MyTestStack'' Undefined [New ''cdk.App'' []] = Inl (TypeError msg))"
proof -
  have h: "''S3Origin'' \<notin> set (aws_cdk_lib ''aws-cdk-lib/aws-cloudfront'')"
    by (simp add: aws_cdk_lib_def)
  from h WebAppStack_error_not_from_sdk [where lib = aws_cdk_lib, OF h]
  show ?thesis by (rule conjI)
qed

section \<open>The function's role policy\<close>

text \<open>
  C8. Whatever props the Lambda wrapper is given, when it returns it has made one policy
  statement with actions \<open>dynamodb:*\<close>, \<open>cognito-idp:*\<close>, \<open>elasticache:*\<close>, \<open>logs:*\<close> on
  resources \<open>*\<close>, and has added it to the role policy of the one function it declared; and
  so has every run of the stack that returns.
\<close>

theorem AuthLambdaConstruct_wildcard_policy:
  "(AuthLambdaConstruct sdk scope id' props tr0 = Inr (r, tr) \<longrightarrow>
      (\<exists>statement.
         news ''lambda.Function'' (calls_since tr0 tr) = [tr ! AuthLambdaConstruct_obj.lambdaFunction r] \<and>
         tr ! statement = New ''iam.PolicyStatement'' [Obj [
            (''actions'', Arr [Str ''dynamodb:*'', Str ''cognito-idp:*'',
                               Str ''elasticache:*'', Str ''logs:*'']),
            (''resources'', Arr [Str ''*''])]] \<and>
         filter (\<lambda>c. kind_of c = MethodCall ''addToRolePolicy'') (calls_since tr0 tr) =
           [Method (AuthLambdaConstruct_obj.lambdaFunction r) ''addToRolePolicy'' [Ref statement]]))
   \<and> (MyStack sdk scope id' stackProps tr0 = Inr (this, tr) \<longrightarrow>
      (\<exists>fn statement.
         news ''lambda.Function'' (calls_since tr0 tr) = [tr ! fn] \<and>
         tr ! statement = New ''iam.PolicyStatement'' [Obj [
            (''actions'', Arr [Str ''dynamodb:*'', Str ''cognito-idp:*'',
                               Str ''elasticache:*'', Str ''logs:*'']),
            (''resources'', Arr [Str ''*''])]] \<and>
         filter (\<lambda>c. kind_of c = MethodCall ''addToRolePolicy'') (calls_since tr0 tr) =
           [Method fn ''addToRolePolicy'' [Ref statement]]))"
proof -
  have A: "\<exists>statement.
         news ''lambda.Function'' (calls_since tr0 tr) = [tr ! AuthLambdaConstruct_obj.lambdaFunction r] \<and>
         tr ! statement = New ''iam.PolicyStatement'' [Obj [
            (''actions'', Arr [Str ''dynamodb:*'', Str ''cognito-idp:*'',
                               Str ''elasticache:*'', Str ''logs:*'']),
            (''resources'', Arr [Str ''*''])]] \<and>
         filter (\<lambda>c. kind_of c = MethodCall ''addToRolePolicy'') (calls_since tr0 tr) =
           [Method (AuthLambdaConstruct_obj.lambdaFunction r) ''addToRolePolicy'' [Ref statement]]"
    if "AuthLambdaConstruct sdk scope id' props tr0 = Inr (r, tr)"
    apply (rule exI [of _ "length tr0 + 3"])
    apply (simp add: AuthLambdaConstruct_trace [OF that] calls_since_append news_def nth_append)
    done
  have M: "\<exists>fn statement.
         news ''lambda.Function'' (calls_since tr0 tr) = [tr ! fn] \<and>
         tr ! statement = New ''iam.PolicyStatement'' [Obj [
            (''actions'', Arr [Str ''dynamodb:*'', Str ''cognito-idp:*'',
                               Str ''elasticache:*'', Str ''logs:*'']),
            (''resources'', Arr [Str ''*''])]] \<and>
         filter (\<lambda>c. kind_of c = MethodCall ''addToRolePolicy'') (calls_since tr0 tr) =
           [Method fn ''addToRolePolicy'' [Ref statement]]"
    if "MyStack sdk scope id' stackProps tr0 = Inr (this, tr)"
    apply (rule exI [of _ "length tr0 + 14"])
    apply (rule exI [of _ "length tr0 + 15"])
    apply (simp add: MyStack_trace [OF that] calls_since_append news_def nth_append)
    done
  from A M show ?thesis by blast
qed

theorem AuthLambdaConstruct_wildcard_policy_witness:
  "(\<exists>x tr. AuthLambdaConstruct accepting 1 ''AuthLambdaConstruct''
         \<lparr>functionName = ''AuthLambdaFunction'', handler = ''index.handler'',
          codePath = ''path/to/your/code'', AuthLambdaConstructProps.vpc = 0,
          securityGroups = [0], environment = []\<rparr>
         [New ''cdk.App'' [], New ''cdk.Stack'' [Ref 0, Str ''MyStack'', Undefined]] = Inr (x, tr) \<and>
      (\<exists>statement.
         news ''lambda.Function'' (calls_since [New ''cdk.App'' [], New ''cdk.Stack'' [Ref 0, Str ''MyStack'', Undefined]] tr) =
           [tr ! AuthLambdaConstruct_obj.lambdaFunction x] \<and>
         tr ! statement = New ''iam.PolicyStatement'' [Obj [
            (''actions'', Arr [Str ''dynamodb:*'', Str ''cognito-idp:*'',
                               Str ''elasticache:*'', Str ''logs:*'']),
            (''resources'', Arr [Str ''*''])]] \<and>
         filter (\<lambda>c. kind_of c = MethodCall ''addToRolePolicy'') (calls_since [New ''cdk.App'' [], New ''cdk.Stack'' [Ref 0, Str ''MyStack'', Undefined]] tr) =
           [Method (AuthLambdaConstruct_obj.lambdaFunction x) ''addToRolePolicy'' [Ref statement]]))
   \<and> (\<exists>x tr. MyStack accepting 0 ''MyStack'' Undefined [New ''cdk.App'' []] = Inr (x, tr) \<and>
      (\<exists>fn statement.
         news ''lambda.Function'' (calls_since [New ''cdk.App'' []] tr) = [tr ! fn] \<and>
         tr ! statement = New ''iam.PolicyStatement'' [Obj [
            (''actions'', Arr [Str ''dynamodb:*'', Str ''cognito-idp:*'',
                               Str ''elasticache:*'', Str ''logs:*'']),
            (''resources'', Arr [Str ''*''])]] \<and>
         filter (\<lambda>c. kind_of c = MethodCall ''addToRolePolicy'') (calls_since [New ''cdk.App'' []] tr) =
           [Method fn ''addToRolePolicy'' [Ref statement]]))"
proof -
  obtain x1 t1 where
    r0: "AuthLambdaConstruct accepting 1 ''AuthLambdaConstruct''
         \<lparr>functionName = ''AuthLambdaFunction'', handler = ''index.handler'',
          codePath = ''path/to/your/code'', AuthLambdaConstructProps.vpc = 0,
          securityGroups = [0], environment = []\<rparr>
         [New ''cdk.App'' [], New ''cdk.Stack'' [Ref 0, Str ''MyStack'', Undefined]] = Inr (x1, t1)"
    by (simp add: constructor_defs run_defs)
  note c0 = AuthLambdaConstruct_wildcard_policy [THEN conjunct1, THEN mp, OF r0]
  have w0: "\<exists>x tr. AuthLambdaConstruct accepting 1 ''AuthLambdaConstruct''
         \<lparr>functionName = ''AuthLambdaFunction'', handler = ''index.handler'',
          codePath = ''path/to/your/code'', AuthLambdaConstructProps.vpc = 0,
          securityGroups = [0], environment = []\<rparr>
         [New ''cdk.App'' [], New ''cdk.Stack'' [Ref 0, Str ''MyStack'', Undefined]] = Inr (x, tr) \<and>
      (\<exists>statement.
         news ''lambda.Function'' (calls_since [New ''cdk.App'' [], New ''cdk.Stack'' [Ref 0, Str ''MyStack'', Undefined]] tr) =
           [tr ! AuthLambdaConstruct_obj.lambdaFunction x] \<and>
         tr ! statement = New ''iam.PolicyStatement'' [Obj [
            (''actions'', Arr [Str ''dynamodb:*'', Str ''cognito-idp:*'',
                               Str ''elasticache:*'', Str ''logs:*'']),
            (''resources'', Arr [Str ''*''])]] \<and>
         filter (\<lambda>c. kind_of c = MethodCall ''addToRolePolicy'') (calls_since [New ''cdk.App'' [], New ''cdk.Stack'' [Ref 0, Str ''MyStack'', Undefined]] tr) =
           [Method (AuthLambdaConstruct_obj.lambdaFunction x) ''addToRolePolicy'' [Ref statement]])"
    by (rule exI [of _ x1], rule exI [of _ t1], rule conjI [OF r0 c0])
  obtain x2 t2 where
    r1: "MyStack accepting 0 ''MyStack'' Undefined [New ''cdk.App'' []] = Inr (x2, t2)"
    by (simp add: constructor_defs run_defs)
  note c1 = AuthLambdaConstruct_wildcard_policy [THEN conjunct2, THEN mp, OF r1]
  have w1: "\<exists>x tr. MyStack accepting 0 ''MyStack'' Undefined [New ''cdk.App'' []] = Inr (x, tr) \<and>
      (\<exists>fn statement.
         news ''lambda.Function'' (calls_since [New ''cdk.App'' []] tr) = [tr ! fn] \<and>
         tr ! statement = New ''iam.PolicyStatement'' [Obj [
            (''actions'', Arr [Str ''dynamodb:*'', Str ''cognito-idp:*'',
                               Str ''elasticache:*'', Str ''logs:*'']),
            (''resources'', Arr [Str ''*''])]] \<and>
         filter (\<lambda>c. kind_of c = MethodCall ''addToRolePolicy'') (calls_since [New ''cdk.App'' []] tr) =
           [Method fn ''addToRolePolicy'' [Ref statement]])"
    by (rule exI [of _ x2], rule exI [of _ t2], rule conjI [OF r1 c1])
  show ?thesis
    by (intro conjI w0 w1)
qed

section \<open>The CORS preflight options\<close>

text \<open>
  The claim C9 ends: so the synthesized API permits credentialed cross-origin requests from
  every origin. It does not. The preflight response of the stack's REST API allows the
  origin \<open>*\<close> and credentials; for a request with credentials the CORS check compares the
  allowed origin with the request's own, so the request from \<open>https://example.com\<close> fails
  it, while the same request without credentials passes.
\<close>

theorem credentialed_request_fails_cors_check:
  "map preflight_headers_of
       (news ''apigateway.RestApi''
          (calls_made (MyStack accepting 0 ''MyStack'' Undefined) [New ''cdk.App'' []])) =
     [\<lparr>allow_origin = Some ''*'', allow_credentials = True\<rparr>]
   \<and> \<not> cors_check \<lparr>allow_origin = Some ''*'', allow_credentials = True\<rparr>
          ''https://example.com'' True
   \<and> cors_check \<lparr>allow_origin = Some ''*'', allow_credentials = True\<rparr>
          ''https://example.com'' False"
  by (simp add: calls_made_def calls_since_def constructor_defs run_defs news_def
        preflight_headers_of_def property_def cors_check_def)

text \<open>
  C9, amended. Whatever props the API gateway wrapper is given, the REST API it declares
  has \<open>allowCredentials\<close> true in its CORS preflight options and the wrapper's
  \<open>allowedOrigins\<close> as \<open>allowOrigins\<close>; the stack passes \<open>['*']\<close>, so its one REST API is
  declared with \<open>allowCredentials\<close> true and \<open>allowOrigins\<close> \<open>['*']\<close>.
\<close>

theorem ApiGateway_cors_credentials_any_origin:
  "(ApiGatewayConstruct sdk scope id' props tr0 = Inr (r, tr) \<longrightarrow>
      news ''apigateway.RestApi'' (calls_since tr0 tr) = [tr ! apiGateway r] \<and>
      property [''defaultCorsPreflightOptions'', ''allowCredentials''] (tr ! apiGateway r) =
        Some (Bool True) \<and>
      property [''defaultCorsPreflightOptions'', ''allowOrigins''] (tr ! apiGateway r) =
        Some (Arr (map Str (allowedOrigins props))))
   \<and> (MyStack sdk scope id' stackProps tr0 = Inr (this, tr) \<longrightarrow>
      map (\<lambda>c. (property [''defaultCorsPreflightOptions'', ''allowCredentials''] c,
                property [''defaultCorsPreflightOptions'', ''allowOrigins''] c))
          (news ''apigateway.RestApi'' (calls_since tr0 tr)) =
        [(Some (Bool True), Some (Arr [Str ''*'']))])"
proof -
  have A: "news ''apigateway.RestApi'' (calls_since tr0 tr) = [tr ! apiGateway r] \<and>
      property [''defaultCorsPreflightOptions'', ''allowCredentials''] (tr ! apiGateway r) =
        Some (Bool True) \<and>
      property [''defaultCorsPreflightOptions'', ''allowOrigins''] (tr ! apiGateway r) =
        Some (Arr (map Str (allowedOrigins props)))"
    if "ApiGatewayConstruct sdk scope id' props tr0 = Inr (r, tr)"
    by (simp add: ApiGatewayConstruct_trace [OF that] calls_since_append news_def
          property_def nth_append)
  have M: "map (\<lambda>c. (property [''defaultCorsPreflightOptions'', ''allowCredentials''] c,
                property [''defaultCorsPreflightOptions'', ''allowOrigins''] c))
          (news ''apigateway.RestApi'' (calls_since tr0 tr)) =
        [(Some (Bool True), Some (Arr [Str ''*'']))]"
    if "MyStack sdk scope id' stackProps tr0 = Inr (this, tr)"
    by (simp add: MyStack_trace [OF that] calls_since_append news_def property_def)
  from A M show ?thesis by blast
qed

theorem ApiGateway_cors_credentials_any_origin_witness:
  "(\<exists>x tr. ApiGatewayConstruct accepting 1 ''ApiGatewayConstruct''
         \<lparr>restApiName = ''MyApiGateway'', apigatewayName = ''MyApiGatewayName'',
          allowedOrigins = [''*''], ApiGatewayConstructProps.lambdaFunction = 0,
          description = None\<rparr>
         [New ''cdk.App'' [], New ''cdk.Stack'' [Ref 0, Str ''MyStack'', Undefined]] = Inr (x, tr) \<and>
      news ''apigateway.RestApi'' (calls_since [New ''cdk.App'' [], New ''cdk.Stack'' [Ref 0, Str ''MyStack'', Undefined]] tr) = [tr ! apiGateway x] \<and>
      property [''defaultCorsPreflightOptions'', ''allowCredentials''] (tr ! apiGateway x) =
        Some (Bool True) \<and>
      property [''defaultCorsPreflightOptions'', ''allowOrigins''] (tr ! apiGateway x) =
        Some (Arr [Str ''*'']))
   \<and> (\<exists>x tr. MyStack accepting 0 ''MyStack'' Undefined [New ''cdk.App'' []] = Inr (x, tr) \<and>
      map (\<lambda>c. (property [''defaultCorsPreflightOptions'', ''allowCredentials''] c,
                property [''defaultCorsPreflightOptions'', ''allowOrigins''] c))
          (news ''apigateway.RestApi'' (calls_since [New ''cdk.App'' []] tr)) =
        [(Some (Bool True), Some (Arr [Str ''*'']))])"
proof -
  obtain x1 t1 where
    r0: "ApiGatewayConstruct accepting 1 ''ApiGatewayConstruct''
         \<lparr>restApiName = ''MyApiGateway'', apigatewayName = ''MyApiGatewayName'',
          allowedOrigins = [''*''], ApiGatewayConstructProps.lambdaFunction = 0,
          description = None\<rparr>
         [New ''cdk.App'' [], New ''cdk.Stack'' [Ref 0, Str ''MyStack'', Undefined]] = Inr (x1, t1)"
    by (simp add: constructor_defs run_defs)
  note c0 = ApiGateway_cors_credentials_any_origin [THEN conjunct1, THEN mp, OF r0]
  have w0: "\<exists>x tr. ApiGatewayConstruct accepting 1 ''ApiGatewayConstruct''
         \<lparr>restApiName = ''MyApiGateway'', apigatewayName = ''MyApiGatewayName'',
          allowedOrigins = [''*''], ApiGatewayConstructProps.lambdaFunction = 0,
          description = None\<rparr>
         [New ''cdk.App'' [], New ''cdk.Stack'' [Ref 0, Str ''MyStack'', Undefined]] = Inr (x, tr) \<and>
      news ''apigateway.RestApi'' (calls_since [New ''cdk.App'' [], New ''cdk.Stack'' [Ref 0, Str ''MyStack'', Undefined]] tr) = [tr ! apiGateway x] \<and>
      property [''defaultCorsPreflightOptions'', ''allowCredentials''] (tr ! apiGateway x) =
        Some (Bool True) \<and>
      property [''defaultCorsPreflightOptions'', ''allowOrigins''] (tr ! apiGateway x) =
        Some (Arr [Str ''*''])"
    by (rule exI [of _ x1], rule exI [of _ t1], rule conjI [OF r0]) (simp add: c0)
  obtain x2 t2 where
    r1: "MyStack accepting 0 ''MyStack'' Undefined [New ''cdk.App'' []] = Inr (x2, t2)"
    by (simp add: constructor_defs run_defs)
  note c1 = ApiGateway_cors_credentials_any_origin [THEN conjunct2, THEN mp, OF r1]
  have w1: "\<exists>x tr. MyStack accepting 0 ''MyStack'' Undefined [New ''cdk.App'' []] = Inr (x, tr) \<and>
      map (\<lambda>c. (property [''defaultCorsPreflightOptions'', ''allowCredentials''] c,
                property [''defaultCorsPreflightOptions'', ''allowOrigins''] c))
          (news ''apigateway.RestApi'' (calls_since [New ''cdk.App'' []] tr)) =
        [(Some (Bool True), Some (Arr [Str ''*'']))]"
    by (rule exI [of _ x2], rule exI [of _ t2], rule conjI [OF r1 c1])
  show ?thesis
    by (intro conjI w0 w1)
qed

section \<open>Removal policies\<close>

text \<open>
  C10. In both stacks every removal policy named anywhere in a call is \<open>DESTROY\<close>, and
  the resources given one are exactly: the bucket in the SplitItUI stack (\<open>removalPolicy\<close>);
  the table and the log group (\<open>removalPolicy\<close>) and the REST API, for its CloudWatch role
  (\<open>cloudWatchRoleRemovalPolicy\<close>), in the GitAuthEngine stack. No call names \<open>RETAIN\<close>.
  The stack props a caller passes in are taken to name no removal policy.
\<close>

theorem removal_policies_all_DESTROY:
  "(WebAppStack sdk scope id' props tr0 = Inr (this, tr) \<and> removal_policies props = [] \<longrightarrow>
      explicit_removal_policies (calls_since tr0 tr) =
        [((''s3.Bucket'', ''WebAppS3''), [''DESTROY''])] \<and>
      map (property [''removalPolicy'']) (news ''s3.Bucket'' (calls_since tr0 tr)) =
        [Some (Enum ''cdk.RemovalPolicy'' ''DESTROY'')] \<and>
      ''RETAIN'' \<notin> set (concat (map snd (explicit_removal_policies (calls_since tr0 tr)))))
   \<and> (MyStack sdk scope id' props tr0 = Inr (this, tr) \<and> removal_policies props = [] \<longrightarrow>
      explicit_removal_policies (calls_since tr0 tr) =
        [((''dynamodb.Table'', ''MyTable''), [''DESTROY'']),
         ((''logs.LogGroup'', ''MyLogGroup''), [''DESTROY'']),
         ((''apigateway.RestApi'', ''MyApiGatewayName''), [''DESTROY''])] \<and>
      map (property [''removalPolicy'']) (news ''dynamodb.Table'' (calls_since tr0 tr)) =
        [Some (Enum ''cdk.RemovalPolicy'' ''DESTROY'')] \<and>
      map (property [''removalPolicy'']) (news ''logs.LogGroup'' (calls_since tr0 tr)) =
        [Some (Enum ''cdk.RemovalPolicy'' ''DESTROY'')] \<and>
      map (property [''cloudWatchRoleRemovalPolicy''])
          (news ''apigateway.RestApi'' (calls_since tr0 tr)) =
        [Some (Enum ''cdk.RemovalPolicy'' ''DESTROY'')] \<and>
      ''RETAIN'' \<notin> set (concat (map snd (explicit_removal_policies (calls_since tr0 tr)))))"
proof -
  have W: "explicit_removal_policies (calls_since tr0 tr) =
        [((''s3.Bucket'', ''WebAppS3''), [''DESTROY''])] \<and>
      map (property [''removalPolicy'']) (news ''s3.Bucket'' (calls_since tr0 tr)) =
        [Some (Enum ''cdk.RemovalPolicy'' ''DESTROY'')] \<and>
      ''RETAIN'' \<notin> set (concat (map snd (explicit_removal_policies (calls_since tr0 tr))))"
    if "WebAppStack sdk scope id' props tr0 = Inr (this, tr)" "removal_policies props = []"
    by (simp add: WebAppStack_trace [OF that(1)] that(2) calls_since_append
          explicit_removal_policies_def news_def property_def)
  have M: "explicit_removal_policies (calls_since tr0 tr) =
        [((''dynamodb.Table'', ''MyTable''), [''DESTROY'']),
         ((''logs.LogGroup'', ''MyLogGroup''), [''DESTROY'']),
         ((''apigateway.RestApi'', ''MyApiGatewayName''), [''DESTROY''])] \<and>
      map (property [''removalPolicy'']) (news ''dynamodb.Table'' (calls_since tr0 tr)) =
        [Some (Enum ''cdk.RemovalPolicy'' ''DESTROY'')] \<and>
      map (property [''removalPolicy'']) (news ''logs.LogGroup'' (calls_since tr0 tr)) =
        [Some (Enum ''cdk.RemovalPolicy'' ''DESTROY'')] \<and>
      map (property [''cloudWatchRoleRemovalPolicy''])
          (news ''apigateway.RestApi'' (calls_since tr0 tr)) =
        [Some (Enum ''cdk.RemovalPolicy'' ''DESTROY'')] \<and>
      ''RETAIN'' \<notin> set (concat (map snd (explicit_removal_policies (calls_since tr0 tr))))"
    if "MyStack sdk scope id' props tr0 = Inr (this, tr)" "removal_policies props = []"
    by (simp add: MyStack_trace [OF that(1)] that(2) calls_since_append
          explicit_removal_policies_def news_def property_def)
  from W M show ?thesis by blast
qed

theorem removal_policies_all_DESTROY_witness:
  "(\<exists>x tr. WebAppStack accepting 0 ''CdkStack'' (Obj []) [New ''cdk.App'' []] = Inr (x, tr) \<and>
      explicit_removal_policies (calls_since [New ''cdk.App'' []] tr) =
        [((''s3.Bucket'', ''WebAppS3''), [''DESTROY''])] \<and>
      map (property [''removalPolicy'']) (news ''s3.Bucket'' (calls_since [New ''cdk.App'' []] tr)) =
        [Some (Enum ''cdk.RemovalPolicy'' ''DESTROY'')] \<and>
      ''RETAIN'' \<notin> set (concat (map snd (explicit_removal_policies (calls_since [New ''cdk.App'' []] tr)))))
   \<and> (\<exists>x tr. MyStack accepting 0 ''MyStack'' Undefined [New ''cdk.App'' []] = Inr (x, tr) \<and>
      explicit_removal_policies (calls_since [New ''cdk.App'' []] tr) =
        [((''dynamodb.Table'', ''MyTable''), [''DESTROY'']),
         ((''logs.LogGroup'', ''MyLogGroup''), [''DESTROY'']),
         ((''apigateway.RestApi'', ''MyApiGatewayName''), [''DESTROY''])] \<and>
      map (property [''removalPolicy'']) (news ''dynamodb.Table'' (calls_since [New ''cdk.App'' []] tr)) =
        [Some (Enum ''cdk.RemovalPolicy'' ''DESTROY'')] \<and>
      map (property [''removalPolicy'']) (news ''logs.LogGroup'' (calls_since [New ''cdk.App'' []] tr)) =
        [Some (Enum ''cdk.RemovalPolicy'' ''DESTROY'')] \<and>
      map (property [''cloudWatchRoleRemovalPolicy''])
          (news ''apigateway.RestApi'' (calls_since [New ''cdk.App'' []] tr)) =
        [Some (Enum ''cdk.RemovalPolicy'' ''DESTROY'')] \<and>
      ''RETAIN'' \<notin> set (concat (map snd (explicit_removal_policies (calls_since [New ''cdk.App'' []] tr)))))"
proof -
  obtain x1 t1 where
    r0: "WebAppStack accepting 0 ''CdkStack'' (Obj []) [New ''cdk.App'' []] = Inr (x1, t1)"
    by (simp add: constructor_defs run_defs)
  have p0: "removal_policies (Obj []) = []"
    by simp
  note c0 = removal_policies_all_DESTROY [THEN conjunct1, THEN mp, OF conjI [OF r0 p0]]
  have w0: "\<exists>x tr. WebAppStack accepting 0 ''CdkStack'' (Obj []) [New ''cdk.App'' []] = Inr (x, tr) \<and>
      explicit_removal_policies (calls_since [New ''cdk.App'' []] tr) =
        [((''s3.Bucket'', ''WebAppS3''), [''DESTROY''])] \<and>
      map (property [''removalPolicy'']) (news ''s3.Bucket'' (calls_since [New ''cdk.App'' []] tr)) =
        [Some (Enum ''cdk.RemovalPolicy'' ''DESTROY'')] \<and>
      ''RETAIN'' \<notin> set (concat (map snd (explicit_removal_policies (calls_since [New ''cdk.App'' []] tr))))"
    by (rule exI [of _ x1], rule exI [of _ t1], rule conjI [OF r0 c0])
  obtain x2 t2 where
    r1: "MyStack accepting 0 ''MyStack'' Undefined [New ''cdk.App'' []] = Inr (x2, t2)"
    by (simp add: constructor_defs run_defs)
  have p1: "removal_policies Undefined = []"
    by simp
  note c1 = removal_policies_all_DESTROY [THEN conjunct2, THEN mp, OF conjI [OF r1 p1]]
  have w1: "\<exists>x tr. MyStack accepting 0 ''MyStack'' Undefined [New ''cdk.App'' []] = Inr (x, tr) \<and>
      explicit_removal_policies (calls_since [New ''cdk.App'' []] tr) =
        [((''dynamodb.Table'', ''MyTable''), [''DESTROY'']),
         ((''logs.LogGroup'', ''MyLogGroup''), [''DESTROY'']),
         ((''apigateway.RestApi'', ''MyApiGatewayName''), [''DESTROY''])] \<and>
      map (property [''removalPolicy'']) (news ''dynamodb.Table'' (calls_since [New ''cdk.App'' []] tr)) =
        [Some (Enum ''cdk.RemovalPolicy'' ''DESTROY'')] \<and>
      map (property [''removalPolicy'']) (news ''logs.LogGroup'' (calls_since [New ''cdk.App'' []] tr)) =
        [Some (Enum ''cdk.RemovalPolicy'' ''DESTROY'')] \<and>
      map (property [''cloudWatchRoleRemovalPolicy''])
          (news ''apigateway.RestApi'' (calls_since [New ''cdk.App'' []] tr)) =
        [Some (Enum ''cdk.RemovalPolicy'' ''DESTROY'')] \<and>
      ''RETAIN'' \<notin> set (concat (map snd (explicit_removal_policies (calls_since [New ''cdk.App'' []] tr))))"
    by (rule exI [of _ x2], rule exI [of _ t2], rule conjI [OF r1 c1])
  show ?thesis
    by (intro conjI w0 w1)
qed

end
